theory Spec2Isabelle
  imports Main "HOL-Library.Word"
begin

unbundle bit_operations_syntax

section \<open>Status codes\<close>

text \<open>
  The C functions return an \<open>int\<close> status: \<open>SUCCESS\<close> (0) or
  \<open>IFX_ERROR(module, function, reason)\<close>.  Every error built in \<open>t1prime.c\<close> has
  module \<open>LIBT1PRIME\<close>, so an error is a function identifier and a reason.  A status
  handed up unchanged from the layer below is \<open>DRIVER_ERROR\<close> with the driver's code.
  A function that returns only a status is typed \<open>error + unit\<close>; one that also fills
  an output buffer is typed \<open>error + value\<close>.

  \<open>malloc\<close> is taken to succeed, so the \<open>OUT_OF_MEMORY\<close> returns are not branches of
  the model.
\<close>

datatype function_id =
    PROTOCOL_TRANSCEIVE | PROTOCOL_TRANSMIT | PROTOCOL_RECEIVE
  | PROTOCOL_GETPROPERTY | PROTOCOL_SETPROPERTY
  | T1PRIME_BLOCK_DECODE | T1PRIME_VALIDATE_CRC
  | T1PRIME_CIP_DECODE | T1PRIME_CIP_VALIDATE | T1PRIME_DLLP_DECODE
  | T1PRIME_PLP_DECODE | T1PRIME_IFS_DECODE

datatype reason =
    ILLEGAL_ARGUMENT | TOO_LITTLE_DATA | INFORMATIONSIZE_MISMATCH | INVALID_CRC
  | INVALID_LENGTH | INVALID_PLID | INVALID_BLOCK | TRANSCEIVE_ABORTED

datatype error = IFX_ERROR function_id reason | DRIVER_ERROR int

fun error_reason :: "error \<Rightarrow> reason option" where
  "error_reason (IFX_ERROR f r) = Some r"
| "error_reason (DRIVER_ERROR c) = None"

section \<open>CRC\<close>

type_synonym byte = "8 word"

text \<open>
  Modelled from the spec: \<open>crc16_ccitt_x25\<close> is declared in \<open>ifx/crc.h\<close> and
  exercised by \<open>crc-tests.cpp\<close>, but its body is not among the sources.  The spec
  gives the algorithm as CCITT-X.25: polynomial 0x1021, initial value 0xFFFF, input and
  output reflected, final XOR 0xFFFF.  Reflected processing shifts right and uses the
  bit-reversed polynomial 0x8408.
\<close>

definition crc_shift :: "16 word \<Rightarrow> 16 word" where
  "crc_shift c = (if c AND 1 = 1 then drop_bit 1 c XOR 0x8408 else drop_bit 1 c)"

definition crc_update :: "16 word \<Rightarrow> byte \<Rightarrow> 16 word" where
  "crc_update c b = (crc_shift ^^ 8) (c XOR ucast b)"

definition crc16_ccitt_x25 :: "byte list \<Rightarrow> 16 word" where
  "crc16_ccitt_x25 data = foldl crc_update 0xFFFF data XOR 0xFFFF"

section \<open>Byte packing\<close>

text \<open>
  The C expressions that pack and unpack 16-bit big-endian fields.  \<open>u16_be hi lo\<close> is
  \<open>(hi << 8) | lo\<close> stored in a \<open>uint16_t\<close>; \<open>size_be hi lo\<close> is the same
  expression stored in a \<open>size_t\<close>.  \<open>hi8\<close> and \<open>lo8\<close> are \<open>(c & 0xff00) >> 8\<close> and
  \<open>c & 0xff\<close> stored in a \<open>uint8_t\<close>; \<open>size_hi8\<close> and \<open>size_lo8\<close> are the same for a
  \<open>size_t\<close> operand.
\<close>

definition u16_be :: "byte \<Rightarrow> byte \<Rightarrow> 16 word" where
  "u16_be hi lo = push_bit 8 (ucast hi) OR ucast lo"

definition size_be :: "byte \<Rightarrow> byte \<Rightarrow> nat" where
  "size_be hi lo = push_bit 8 (unat hi) OR unat lo"

definition hi8 :: "16 word \<Rightarrow> byte" where
  "hi8 c = ucast (drop_bit 8 (c AND 0xFF00))"

definition lo8 :: "16 word \<Rightarrow> byte" where
  "lo8 c = ucast (c AND 0x00FF)"

definition size_hi8 :: "nat \<Rightarrow> byte" where
  "size_hi8 n = word_of_nat (drop_bit 8 (n AND 0xFF00))"

definition size_lo8 :: "nat \<Rightarrow> byte" where
  "size_lo8 n = word_of_nat (n AND 0xFF)"

section \<open>Block codec\<close>

text \<open>
  \<open>struct Block\<close>.  \<open>information\<close> is the content of the buffer the pointer refers
  to; a \<open>NULL\<close> pointer is the empty list.  \<open>information_size\<close> is a \<open>size_t\<close>,
  read here as a natural number: the codec only masks and compares it.
\<close>

record Block =
  nad :: byte
  pcb :: byte
  information_size :: nat
  information :: "byte list"

definition BLOCK_PROLOGUE_LENGTH :: nat where
  "BLOCK_PROLOGUE_LENGTH = 1 + 1 + 2"

definition BLOCK_EPILOGUE_LENGTH :: nat where
  "BLOCK_EPILOGUE_LENGTH = 2"

text \<open>
  The four prologue bytes written by both \<open>t1prime_validate_crc\<close> and
  \<open>t1prime_block_encode\<close>: NAD, PCB, \<open>(information_size & 0xff00) >> 8\<close> and
  \<open>information_size & 0xff\<close>.  Both functions then copy \<open>information_size\<close> bytes
  from the information buffer (\<open>memcpy\<close>).
\<close>

definition block_prologue :: "Block \<Rightarrow> byte list" where
  "block_prologue block =
     [nad block, pcb block,
      size_hi8 (information_size block), size_lo8 (information_size block)]"

definition t1prime_validate_crc :: "Block \<Rightarrow> 16 word \<Rightarrow> error + unit" where
  "t1prime_validate_crc block expected =
     (let binary = block_prologue block @ take (information_size block) (information block);
          actual = crc16_ccitt_x25 binary
      in if actual \<noteq> expected then Inl (IFX_ERROR T1PRIME_VALIDATE_CRC INVALID_CRC)
         else Inr ())"

definition t1prime_block_encode :: "Block \<Rightarrow> byte list" where
  "t1prime_block_encode block =
     (let buffer = block_prologue block @ take (information_size block) (information block);
          crc = crc16_ccitt_x25 buffer
      in buffer @ [hi8 crc, lo8 crc])"

definition t1prime_block_decode :: "byte list \<Rightarrow> error + Block" where
  "t1prime_block_decode data =
     (if length data < BLOCK_PROLOGUE_LENGTH + BLOCK_EPILOGUE_LENGTH
      then Inl (IFX_ERROR T1PRIME_BLOCK_DECODE TOO_LITTLE_DATA)
      else
        let size = size_be (data ! 2) (data ! 3)
        in if length data \<noteq> BLOCK_PROLOGUE_LENGTH + size + BLOCK_EPILOGUE_LENGTH
           then Inl (IFX_ERROR T1PRIME_BLOCK_DECODE INFORMATIONSIZE_MISMATCH)
           else
             let block = \<lparr>nad = data ! 0, pcb = data ! 1, information_size = size,
                          information = take size (drop BLOCK_PROLOGUE_LENGTH data)\<rparr>;
                 crc = u16_be (data ! (length data - 2)) (data ! (length data - 1))
             in if t1prime_validate_crc block crc \<noteq> Inr ()
                then Inl (IFX_ERROR T1PRIME_BLOCK_DECODE INVALID_CRC)
                else Inr block)"

text \<open>
  A block is well formed when its buffer holds exactly \<open>information_size\<close> bytes and
  that size fits the 16-bit LEN field.
\<close>

definition block_wf :: "Block \<Rightarrow> bool" where
  "block_wf block \<longleftrightarrow>
     length (information block) = information_size block \<and> information_size block < 2 ^ 16"

text \<open>
  The claims about decoding are phrased over the wire format: \<open>LEN\<close> is the big-endian
  16-bit value at offsets 2 and 3, \<open>be16\<close> the big-endian byte pair of a 16-bit value, and
  \<open>crc_field_ok\<close> says that the last two bytes are the big-endian CRC of the first
  \<open>4 + LEN\<close> bytes.
\<close>

definition LEN :: "byte list \<Rightarrow> nat" where
  "LEN x = 256 * unat (x ! 2) + unat (x ! 3)"

definition be16 :: "16 word \<Rightarrow> byte list" where
  "be16 c = [ucast (drop_bit 8 c), ucast c]"

definition crc_field_ok :: "byte list \<Rightarrow> bool" where
  "crc_field_ok x \<longleftrightarrow>
     drop (length x - 2) x = be16 (crc16_ccitt_x25 (take (4 + LEN x) x))"

fun is_ok :: "error + 'a \<Rightarrow> bool" where
  "is_ok (Inr v) = True"
| "is_ok (Inl e) = False"


section \<open>Protocol control byte\<close>

text \<open>
  The PCB macros of \<open>t1prime.h\<close>.  \<open>T1PRIME_PCB(type)\<close> is \<open>type & 0xff\<close>, the identity
  on a byte.  A macro argument used as a C condition (\<open>ns ? 0x40 : 0x00\<close>) is true when
  it is not zero.
\<close>

definition T1PRIME_PCB_I :: "byte \<Rightarrow> bool \<Rightarrow> byte" where
  "T1PRIME_PCB_I ns m = (if ns \<noteq> 0 then 0x40 else 0x00) OR (if m then 0x20 else 0x00)"

definition T1PRIME_PCB_IS_I :: "byte \<Rightarrow> bool" where
  "T1PRIME_PCB_IS_I p \<longleftrightarrow> p AND 0x80 = 0x00"

definition T1PRIME_PCB_I_GET_NS :: "byte \<Rightarrow> byte" where
  "T1PRIME_PCB_I_GET_NS p = drop_bit 6 (p AND 0x40)"

definition T1PRIME_PCB_I_HAS_MORE :: "byte \<Rightarrow> bool" where
  "T1PRIME_PCB_I_HAS_MORE p \<longleftrightarrow> p AND 0x20 = 0x20"

definition T1PRIME_PCB_R :: "byte \<Rightarrow> byte \<Rightarrow> byte" where
  "T1PRIME_PCB_R nr type = 0x80 OR (if nr \<noteq> 0 then 0x10 else 0x00) OR (type AND 0x0F)"

definition T1PRIME_PCB_IS_R :: "byte \<Rightarrow> bool" where
  "T1PRIME_PCB_IS_R p \<longleftrightarrow> p AND 0xC0 = 0x80"

definition T1PRIME_PCB_R_GET_NR :: "byte \<Rightarrow> byte" where
  "T1PRIME_PCB_R_GET_NR p = drop_bit 4 (p AND 0x10)"

definition T1PRIME_PCB_R_ACK :: "byte \<Rightarrow> byte" where
  "T1PRIME_PCB_R_ACK nr = T1PRIME_PCB_R nr 0x00"

definition T1PRIME_PCB_R_CRC :: "byte \<Rightarrow> byte" where
  "T1PRIME_PCB_R_CRC nr = T1PRIME_PCB_R nr 0x01"

definition T1PRIME_PCB_S :: "byte \<Rightarrow> bool \<Rightarrow> byte" where
  "T1PRIME_PCB_S type is_response =
     0xC0 OR (if is_response then 0x20 else 0x00) OR (type AND 0x0F)"

definition T1PRIME_PCB_IS_S :: "byte \<Rightarrow> bool" where
  "T1PRIME_PCB_IS_S p \<longleftrightarrow> p AND 0xC0 = 0xC0"

definition T1PRIME_PCB_S_IS_REQUEST :: "byte \<Rightarrow> bool" where
  "T1PRIME_PCB_S_IS_REQUEST p \<longleftrightarrow> p AND 0x20 = 0x00"

definition T1PRIME_PCB_S_GET_TYPE :: "byte \<Rightarrow> byte" where
  "T1PRIME_PCB_S_GET_TYPE p = p AND 0x1F"

definition T1PRIME_PCB_S_RESYNCH_REQ :: byte where
  "T1PRIME_PCB_S_RESYNCH_REQ = T1PRIME_PCB_S 0x0 False"

definition T1PRIME_PCB_S_RESYNCH_RESP :: byte where
  "T1PRIME_PCB_S_RESYNCH_RESP = T1PRIME_PCB_S 0x0 True"

definition T1PRIME_PCB_S_IFS_REQ :: byte where
  "T1PRIME_PCB_S_IFS_REQ = T1PRIME_PCB_S 0x1 False"

definition T1PRIME_PCB_S_IFS_RESP :: byte where
  "T1PRIME_PCB_S_IFS_RESP = T1PRIME_PCB_S 0x1 True"

definition T1PRIME_PCB_S_ABORT_REQ :: byte where
  "T1PRIME_PCB_S_ABORT_REQ = T1PRIME_PCB_S 0x2 False"

definition T1PRIME_PCB_S_ABORT_RESP :: byte where
  "T1PRIME_PCB_S_ABORT_RESP = T1PRIME_PCB_S 0x2 True"

definition T1PRIME_PCB_S_WTX_REQ :: byte where
  "T1PRIME_PCB_S_WTX_REQ = T1PRIME_PCB_S 0x3 False"

definition T1PRIME_PCB_S_WTX_RESP :: byte where
  "T1PRIME_PCB_S_WTX_RESP = T1PRIME_PCB_S 0x3 True"

definition T1PRIME_PCB_S_CIP_REQ :: byte where
  "T1PRIME_PCB_S_CIP_REQ = T1PRIME_PCB_S 0x4 False"

definition T1PRIME_PCB_S_CIP_RESP :: byte where
  "T1PRIME_PCB_S_CIP_RESP = T1PRIME_PCB_S 0x4 True"

definition T1PRIME_PCB_S_SWR_REQ :: byte where
  "T1PRIME_PCB_S_SWR_REQ = T1PRIME_PCB_S 0xF False"

definition T1PRIME_PCB_S_SWR_RESP :: byte where
  "T1PRIME_PCB_S_SWR_RESP = T1PRIME_PCB_S 0xF True"

definition NAD_HD_TO_SE :: byte where
  "NAD_HD_TO_SE = 0x21"

section \<open>Information field size encoding\<close>

definition T1PRIME_MAX_IFS :: nat where
  "T1PRIME_MAX_IFS = 0xFF9"

definition T1PRIME_DEFAULT_IFSC :: nat where
  "T1PRIME_DEFAULT_IFSC = 0x08"

definition T1PRIME_DEFAULT_BWT :: "16 word" where
  "T1PRIME_DEFAULT_BWT = 300"

definition T1PRIME_DEFAULT_I2C_MPOT :: byte where
  "T1PRIME_DEFAULT_I2C_MPOT = 10"

definition T1PRIME_DEFAULT_I2C_CLOCK_FREQUENCY :: nat where
  "T1PRIME_DEFAULT_I2C_CLOCK_FREQUENCY = 400000"

definition T1PRIME_BLOCK_TRANSCEIVE_RETRIES :: nat where
  "T1PRIME_BLOCK_TRANSCEIVE_RETRIES = 2"

text \<open>
  \<open>t1prime_ifs_encode\<close>.  The argument is a \<open>size_t\<close>; it is only compared and masked, so
  it is a natural number here.  The bytes are \<open>ifs & 0xff\<close> when one byte is written and
  \<open>(ifs & 0x0f00) >> 8\<close>, \<open>ifs & 0x00ff\<close> when two are.
\<close>

definition t1prime_ifs_encode :: "nat \<Rightarrow> error + byte list" where
  "t1prime_ifs_encode ifs =
     (if ifs = 0 \<or> ifs > T1PRIME_MAX_IFS
      then Inl (IFX_ERROR PROTOCOL_SETPROPERTY ILLEGAL_ARGUMENT)
      else
        let buffer_len = (if ifs \<le> 0xFE then 1 else 2 :: nat)
        in if buffer_len = 1 then Inr [word_of_nat (ifs AND 0xFF)]
           else Inr [word_of_nat (drop_bit 8 (ifs AND 0x0F00)), word_of_nat (ifs AND 0x00FF)])"

definition t1prime_ifs_decode :: "byte list \<Rightarrow> nat \<Rightarrow> error + nat" where
  "t1prime_ifs_decode data data_len =
     (if data_len < 1 \<or> data_len > 2 then Inl (IFX_ERROR T1PRIME_IFS_DECODE ILLEGAL_ARGUMENT)
      else
        let ifs = (if data_len = 1 then unat (data ! 0) else size_be (data ! 0) (data ! 1))
        in if ifs > T1PRIME_MAX_IFS then Inl (IFX_ERROR T1PRIME_IFS_DECODE ILLEGAL_ARGUMENT)
           else Inr ifs)"

section \<open>Communication interface parameters\<close>

definition PLID_SPI :: byte where
  "PLID_SPI = 0x01"

definition PLID_I2C :: byte where
  "PLID_I2C = 0x02"

text \<open>\<open>struct CIP\<close>: each pointer and length pair is the list of bytes it holds.\<close>

record CIP =
  version :: byte
  iin :: "byte list"
  plid :: byte
  plp :: "byte list"
  dllp :: "byte list"
  hb :: "byte list"

record DLLP =
  dllp_bwt :: "16 word"
  dllp_ifsc :: "16 word"

record I2CPLP =
  configuration :: byte
  pwt :: byte
  mcf :: "16 word"
  pst :: byte
  plp_mpot :: byte
  rwgt :: "16 word"

definition t1prime_cip_validate :: "CIP \<Rightarrow> error + unit" where
  "t1prime_cip_validate cip =
     (if length (iin cip) < 3 \<or> length (iin cip) > 4
      then Inl (IFX_ERROR T1PRIME_CIP_VALIDATE INVALID_LENGTH)
      else if plid cip = PLID_SPI \<and> length (plp cip) < 1 + 1 + 2 + 1 + 1 + 2 + 2 + 2
      then Inl (IFX_ERROR T1PRIME_CIP_VALIDATE TOO_LITTLE_DATA)
      else if plid cip \<noteq> PLID_SPI \<and> plid cip = PLID_I2C \<and> length (plp cip) < 1 + 1 + 2 + 1 + 1 + 2
      then Inl (IFX_ERROR T1PRIME_CIP_VALIDATE TOO_LITTLE_DATA)
      else if plid cip \<noteq> PLID_SPI \<and> plid cip \<noteq> PLID_I2C
      then Inl (IFX_ERROR T1PRIME_CIP_VALIDATE INVALID_PLID)
      else if length (dllp cip) < 2 + 2
      then Inl (IFX_ERROR T1PRIME_CIP_VALIDATE TOO_LITTLE_DATA)
      else Inr ())"

text \<open>
  \<open>t1prime_cip_decode\<close> walks the buffer with a running \<open>offset\<close>; every length byte is
  read only after the preceding bound check, so each \<open>data ! i\<close> below is in range.
\<close>

definition t1prime_cip_decode :: "byte list \<Rightarrow> error + CIP" where
  "t1prime_cip_decode data =
     (let data_len = length data in
      if data_len < 1 + 1 + 1 + 1 + 1 + 1 then Inl (IFX_ERROR T1PRIME_CIP_DECODE TOO_LITTLE_DATA)
      else
        let version = data ! 0;
            iin_len = unat (data ! 1);
            offset = 2
        in if offset + iin_len + 1 + 1 + 1 + 1 > data_len
           then Inl (IFX_ERROR T1PRIME_CIP_DECODE TOO_LITTLE_DATA)
           else
             let iin = take iin_len (drop offset data);
                 offset = offset + iin_len;
                 plid = data ! offset;
                 plp_len = unat (data ! (offset + 1));
                 offset = offset + 2
             in if offset + plp_len + 1 + 1 > data_len
                then Inl (IFX_ERROR T1PRIME_CIP_DECODE TOO_LITTLE_DATA)
                else
                  let plp = take plp_len (drop offset data);
                      offset = offset + plp_len;
                      dllp_len = unat (data ! offset);
                      offset = offset + 1
                  in if offset + dllp_len + 1 > data_len
                     then Inl (IFX_ERROR T1PRIME_CIP_DECODE TOO_LITTLE_DATA)
                     else
                       let dllp = take dllp_len (drop offset data);
                           offset = offset + dllp_len;
                           hb_len = unat (data ! offset);
                           offset = offset + 1
                       in if offset + hb_len \<noteq> data_len
                          then Inl (IFX_ERROR T1PRIME_CIP_DECODE INVALID_LENGTH)
                          else
                            let cip = \<lparr>version = version, iin = iin, plid = plid, plp = plp,
                                       dllp = dllp, hb = take hb_len (drop offset data)\<rparr>
                            in case t1prime_cip_validate cip of
                                 Inl e \<Rightarrow> Inl e
                               | Inr u \<Rightarrow> Inr cip)"

definition t1prime_dllp_decode :: "byte list \<Rightarrow> error + DLLP" where
  "t1prime_dllp_decode encoded =
     (if length encoded < 2 + 2 then Inl (IFX_ERROR T1PRIME_DLLP_DECODE TOO_LITTLE_DATA)
      else Inr \<lparr>dllp_bwt = u16_be (encoded ! 0) (encoded ! 1),
                 dllp_ifsc = u16_be (encoded ! 2) (encoded ! 3)\<rparr>)"

definition t1prime_i2c_plp_decode :: "byte list \<Rightarrow> error + I2CPLP" where
  "t1prime_i2c_plp_decode encoded =
     (if length encoded < 1 + 1 + 2 + 1 + 1 + 2 then Inl (IFX_ERROR T1PRIME_PLP_DECODE TOO_LITTLE_DATA)
      else Inr \<lparr>configuration = encoded ! 0, pwt = encoded ! 1,
                 mcf = u16_be (encoded ! 2) (encoded ! 3), pst = encoded ! 4,
                 plp_mpot = encoded ! 5, rwgt = u16_be (encoded ! 6) (encoded ! 7)\<rparr>)"

section \<open>Session state and the transport\<close>

text \<open>
  \<open>T1PrimeProtocolState\<close>.  \<open>ifsc\<close> and \<open>wtx_delay\<close> are \<open>size_t\<close> fields; the
  counters are \<open>uint8_t\<close>.
\<close>

record T1PrimeProtocolState =
  bwt :: "16 word"
  mpot :: byte
  ifsc :: nat
  send_counter :: byte
  receive_counter :: byte
  wtx_delay :: nat

text \<open>
  \<open>t1prime_get_protocol_state\<close> creates the state on first use with these values.
\<close>

definition initial_protocol_state :: T1PrimeProtocolState where
  "initial_protocol_state =
     \<lparr>bwt = T1PRIME_DEFAULT_BWT, mpot = T1PRIME_DEFAULT_I2C_MPOT, ifsc = T1PRIME_MAX_IFS,
      send_counter = 0x00, receive_counter = 0x00, wtx_delay = 0x00\<rparr>"

text \<open>
  What crosses the boundary to the layer below, in order: the bytes handed to the driver's
  \<open>_transmit\<close> with its status, and the result of each \<open>t1prime_block_receive\<close>.
\<close>

datatype event = Transmit "byte list" "error + unit" | Receive "error + Block"

text \<open>
  The engine and its surroundings.  The protocol stack is taken to be initialised
  (\<open>t1prime_initialize\<close> succeeded), so the \<open>INVALID_PROTOCOLSTACK\<close> returns do not occur.
  The driver and the clock are scripts:
  \<^item> \<open>incoming\<close>: the results of the driver's successive \<open>_receive\<close> calls
    (an error status or the bytes read); once it is used up every further call fails;
  \<^item> \<open>transmit_results\<close>: the statuses of the driver's successive \<open>_transmit\<close> calls;
    once it is used up every further call succeeds;
  \<^item> \<open>polls\<close>: for each block waiting timer that is started, how many times
    \<open>timer_has_elapsed\<close> answers false before it answers true;
  \<^item> \<open>i2c_fault\<close>: the status of \<open>i2c_set_clock_frequency\<close> when it fails;
  \<^item> \<open>clock_frequency\<close>: the last frequency set.
  \<open>timer_set\<close> is taken to succeed and \<open>timer_join\<close> only lets time pass.
  \<open>trace\<close> records the events; nothing reads it.
\<close>

record world =
  protocol_state :: T1PrimeProtocolState
  incoming :: "(error + byte list) list"
  transmit_results :: "(error + unit) list"
  polls :: "nat list"
  i2c_fault :: "error option"
  clock_frequency :: nat
  trace :: "event list"

definition driver_receive :: "world \<Rightarrow> nat \<Rightarrow> (error + byte list) \<times> world" where
  "driver_receive w expected_len =
     (case incoming w of
        [] \<Rightarrow> (Inl (DRIVER_ERROR (- 1)), w)
      | r # rs \<Rightarrow> (r, w\<lparr>incoming := rs\<rparr>))"

definition driver_transmit :: "world \<Rightarrow> byte list \<Rightarrow> (error + unit) \<times> world" where
  "driver_transmit w data =
     (case transmit_results w of
        [] \<Rightarrow> (Inr (), w\<lparr>trace := trace w @ [Transmit data (Inr ())]\<rparr>)
      | r # rs \<Rightarrow> (r, w\<lparr>transmit_results := rs, trace := trace w @ [Transmit data r]\<rparr>))"

definition timer_set :: "world \<Rightarrow> nat \<times> world" where
  "timer_set w = (case polls w of [] \<Rightarrow> (0, w) | n # ns \<Rightarrow> (n, w\<lparr>polls := ns\<rparr>))"

definition i2c_set_clock_frequency :: "world \<Rightarrow> nat \<Rightarrow> (error + unit) \<times> world" where
  "i2c_set_clock_frequency w frequency =
     (case i2c_fault w of
        Some e \<Rightarrow> (Inl e, w)
      | None \<Rightarrow> (Inr (), w\<lparr>clock_frequency := frequency\<rparr>))"

section \<open>Sending and receiving one block\<close>

definition t1prime_block_transmit :: "world \<Rightarrow> Block \<Rightarrow> (error + unit) \<times> world" where
  "t1prime_block_transmit w block =
     (if information_size block > ifsc (protocol_state w)
      then (Inl (IFX_ERROR PROTOCOL_TRANSMIT ILLEGAL_ARGUMENT), w)
      else driver_transmit w (t1prime_block_encode block))"

text \<open>
  The NAD polling loop of \<open>t1prime_block_receive\<close>.  The first argument counts the
  iterations the block waiting timer still allows.  An iteration reads one byte; a
  single byte other than 0x00 and 0xff is the NAD and ends the loop.  After any other
  successful read the loop waits for the polling time; after a failed read it goes on
  at once.  When the timer has elapsed \<open>block->nad\<close> still holds 0x00.
\<close>

fun poll_nad :: "nat \<Rightarrow> world \<Rightarrow> byte \<times> world" where
  "poll_nad 0 w = (0x00, w)"
| "poll_nad (Suc n) w =
     (case driver_receive w 1 of
        (Inr nad_buffer, w') \<Rightarrow>
          if length nad_buffer = 1 \<and> nad_buffer ! 0 \<noteq> 0x00 \<and> nad_buffer ! 0 \<noteq> 0xFF
          then (nad_buffer ! 0, w')
          else poll_nad n w'
      | (Inl e, w') \<Rightarrow> poll_nad n w')"

definition receive_epilogue :: "world \<Rightarrow> Block \<Rightarrow> (error + Block) \<times> world" where
  "receive_epilogue w block =
     (case driver_receive w BLOCK_EPILOGUE_LENGTH of
        (Inl e, w') \<Rightarrow> (Inl e, w')
      | (Inr binary, w') \<Rightarrow>
          if length binary \<noteq> BLOCK_EPILOGUE_LENGTH
          then (Inl (IFX_ERROR PROTOCOL_RECEIVE TOO_LITTLE_DATA), w')
          else
            let crc = u16_be (binary ! 0) (binary ! 1)
            in if t1prime_validate_crc block crc \<noteq> Inr ()
               then (Inl (IFX_ERROR T1PRIME_BLOCK_DECODE INVALID_CRC), w')
               else (Inr block, w'))"

definition receive_frames :: "world \<Rightarrow> (error + Block) \<times> world" where
  "receive_frames w =
     (let (budget, w0) = timer_set w;
          (nad_byte, w1) = poll_nad budget w0
      in if nad_byte = 0x00 then (Inl (IFX_ERROR PROTOCOL_RECEIVE TOO_LITTLE_DATA), w1)
         else
           case driver_receive w1 (BLOCK_PROLOGUE_LENGTH - 1) of
             (Inl e, w2) \<Rightarrow> (Inl e, w2)
           | (Inr binary, w2) \<Rightarrow>
               if length binary \<noteq> BLOCK_PROLOGUE_LENGTH - 1
               then (Inl (IFX_ERROR PROTOCOL_RECEIVE TOO_LITTLE_DATA), w2)
               else
                 let size = size_be (binary ! 1) (binary ! 2);
                     block = \<lparr>nad = nad_byte, pcb = binary ! 0, information_size = size,
                              information = []\<rparr>
                 in if size > 0
                    then
                      case driver_receive w2 size of
                        (Inl e, w3) \<Rightarrow> (Inl e, w3)
                      | (Inr info, w3) \<Rightarrow>
                          if length info \<noteq> size
                          then (Inl (IFX_ERROR PROTOCOL_RECEIVE TOO_LITTLE_DATA), w3)
                          else receive_epilogue w3 (block\<lparr>information := info\<rparr>)
                    else receive_epilogue w2 block)"

definition t1prime_block_receive :: "world \<Rightarrow> (error + Block) \<times> world" where
  "t1prime_block_receive w =
     (let (r, w') = receive_frames w in (r, w'\<lparr>trace := trace w' @ [Receive r]\<rparr>))"

section \<open>Block exchange with retries\<close>

text \<open>
  One pass through the body of the \<open>do \<dots> while\<close> loop of \<open>t1prime_block_transceive\<close>
  either returns from the function (\<open>Return\<close>) or falls through to the loop condition
  with an error status (\<open>Failed\<close>).
\<close>

datatype attempt = Return "error + Block" | Failed error

definition is_s_request :: "Block \<Rightarrow> bool" where
  "is_s_request block \<longleftrightarrow>
     T1PRIME_PCB_IS_S (pcb block) \<and> T1PRIME_PCB_S_IS_REQUEST (pcb block)"

definition validate_response :: "T1PrimeProtocolState \<Rightarrow> Block \<Rightarrow> Block \<Rightarrow> attempt" where
  "validate_response st block response_buffer =
     (if is_s_request block
      then
        if T1PRIME_PCB_IS_S (pcb response_buffer)
             \<and> \<not> T1PRIME_PCB_S_IS_REQUEST (pcb response_buffer)
        then
          if T1PRIME_PCB_S_GET_TYPE (pcb block) = T1PRIME_PCB_S_GET_TYPE (pcb response_buffer)
          then Return (Inr response_buffer)
          else Failed (IFX_ERROR PROTOCOL_TRANSCEIVE INVALID_BLOCK)
        else if T1PRIME_PCB_IS_R (pcb response_buffer)
        then
          if T1PRIME_PCB_R_GET_NR (pcb response_buffer) \<noteq> send_counter st
          then Return (Inl (IFX_ERROR PROTOCOL_TRANSCEIVE INVALID_BLOCK))
          else Failed (IFX_ERROR PROTOCOL_TRANSCEIVE INVALID_BLOCK)
        else if T1PRIME_PCB_IS_I (pcb response_buffer)
        then Return (Inl (IFX_ERROR PROTOCOL_TRANSCEIVE INVALID_BLOCK))
        else Failed (IFX_ERROR PROTOCOL_TRANSCEIVE INVALID_BLOCK)
      else Return (Inr response_buffer))"

definition wait_wtx :: "world \<Rightarrow> world" where
  "wait_wtx w =
     (if wtx_delay (protocol_state w) > 0
      then w\<lparr>protocol_state := (protocol_state w)\<lparr>wtx_delay := 0\<rparr>\<rparr>
      else w)"

definition transceive_attempt :: "world \<Rightarrow> Block \<Rightarrow> Block \<Rightarrow> attempt \<times> world" where
  "transceive_attempt w block to_send =
     (case t1prime_block_transmit w to_send of
        (Inl e, w1) \<Rightarrow> (Return (Inl e), w1)
      | (Inr u, w1) \<Rightarrow>
          (case t1prime_block_receive (wait_wtx w1) of
             (Inr response_buffer, w2) \<Rightarrow>
               (validate_response (protocol_state w2) block response_buffer, w2)
           | (Inl e, w2) \<Rightarrow> (Failed e, w2)))"

text \<open>
  The block sent on the next pass: every block other than a request S-block is replaced
  by an R-block signalling a CRC error.
\<close>

definition retry_block :: "T1PrimeProtocolState \<Rightarrow> Block" where
  "retry_block st =
     \<lparr>nad = 0x21, pcb = T1PRIME_PCB_R_CRC (receive_counter st), information_size = 0,
      information = []\<rparr>"

definition next_to_send :: "world \<Rightarrow> Block \<Rightarrow> Block \<Rightarrow> Block" where
  "next_to_send w block to_send =
     (if \<not> T1PRIME_PCB_IS_S (pcb block) \<or> \<not> T1PRIME_PCB_S_IS_REQUEST (pcb block)
      then retry_block (protocol_state w)
      else to_send)"

function block_transceive_loop ::
  "world \<Rightarrow> Block \<Rightarrow> Block \<Rightarrow> nat \<Rightarrow> (error + Block) \<times> world" where
  "block_transceive_loop w block to_send try =
     (case transceive_attempt w block to_send of
        (Return r, w') \<Rightarrow> (r, w')
      | (Failed status, w') \<Rightarrow>
          if Suc try \<le> T1PRIME_BLOCK_TRANSCEIVE_RETRIES
          then block_transceive_loop w' block (next_to_send w' block to_send) (Suc try)
          else (Inl status, w'))"
  by pat_completeness auto
termination
  by (relation "measure (\<lambda>(w, block, to_send, try). Suc T1PRIME_BLOCK_TRANSCEIVE_RETRIES - try)")
    auto

definition t1prime_block_transceive :: "world \<Rightarrow> Block \<Rightarrow> (error + Block) \<times> world" where
  "t1prime_block_transceive w block = block_transceive_loop w block block 0"


section \<open>Supervisory exchanges\<close>

definition reset_counters :: "world \<Rightarrow> world" where
  "reset_counters w =
     w\<lparr>protocol_state := (protocol_state w)\<lparr>send_counter := 0x00, receive_counter := 0x00\<rparr>\<rparr>"

definition s_resynch :: "world \<Rightarrow> (error + unit) \<times> world" where
  "s_resynch w =
     (case t1prime_block_transceive w
             \<lparr>nad = NAD_HD_TO_SE, pcb = T1PRIME_PCB_S_RESYNCH_REQ, information_size = 0,
              information = []\<rparr> of
        (Inl e, w') \<Rightarrow> (Inl e, w')
      | (Inr response, w') \<Rightarrow>
          if pcb response \<noteq> T1PRIME_PCB_S_RESYNCH_RESP
          then (Inl (IFX_ERROR PROTOCOL_RECEIVE INVALID_BLOCK), w')
          else (Inr (), reset_counters w'))"

definition s_cip :: "world \<Rightarrow> (error + CIP) \<times> world" where
  "s_cip w =
     (case t1prime_block_transceive w
             \<lparr>nad = NAD_HD_TO_SE, pcb = T1PRIME_PCB_S_CIP_REQ, information_size = 0,
              information = []\<rparr> of
        (Inl e, w') \<Rightarrow> (Inl e, w')
      | (Inr response, w') \<Rightarrow>
          if pcb response \<noteq> T1PRIME_PCB_S_CIP_RESP
          then (Inl (IFX_ERROR PROTOCOL_RECEIVE INVALID_BLOCK), w')
          else (t1prime_cip_decode (take (information_size response) (information response)), w'))"

definition s_swr :: "world \<Rightarrow> (error + unit) \<times> world" where
  "s_swr w =
     (case t1prime_block_transceive w
             \<lparr>nad = NAD_HD_TO_SE, pcb = T1PRIME_PCB_S_SWR_REQ, information_size = 0,
              information = []\<rparr> of
        (Inl e, w') \<Rightarrow> (Inl e, w')
      | (Inr response, w') \<Rightarrow>
          if pcb response \<noteq> T1PRIME_PCB_S_SWR_RESP
          then (Inl (IFX_ERROR PROTOCOL_RECEIVE INVALID_BLOCK), w')
          else (Inr (), reset_counters w'))"

definition t1prime_set_ifsd :: "world \<Rightarrow> nat \<Rightarrow> (error + unit) \<times> world" where
  "t1prime_set_ifsd w ifsd =
     (case t1prime_ifs_encode ifsd of
        Inl e \<Rightarrow> (Inl e, w)
      | Inr buffer \<Rightarrow>
          (case t1prime_block_transceive w
                  \<lparr>nad = 0x21, pcb = T1PRIME_PCB_S_IFS_REQ, information_size = length buffer,
                   information = buffer\<rparr> of
             (Inl e, w') \<Rightarrow> (Inl e, w')
           | (Inr response, w') \<Rightarrow>
               if pcb response \<noteq> T1PRIME_PCB_S_IFS_RESP
               then (Inl (IFX_ERROR PROTOCOL_RECEIVE INVALID_BLOCK), w')
               else
                 (case t1prime_ifs_decode (information response) (information_size response) of
                    Inl e \<Rightarrow> (Inl (IFX_ERROR PROTOCOL_RECEIVE INVALID_BLOCK), w')
                  | Inr response_ifs \<Rightarrow>
                      if response_ifs \<noteq> ifsd
                      then (Inl (IFX_ERROR PROTOCOL_RECEIVE INVALID_BLOCK), w')
                      else (Inr (), w'))))"

definition t1prime_set_bwt :: "world \<Rightarrow> 16 word \<Rightarrow> (error + unit) \<times> world" where
  "t1prime_set_bwt w b = (Inr (), w\<lparr>protocol_state := (protocol_state w)\<lparr>bwt := b\<rparr>\<rparr>)"

section \<open>Activation\<close>

text \<open>
  \<open>t1prime_activate\<close> as compiled with \<open>INTERFACE_I2C\<close>.  The call of
  \<open>protocol_activate\<close> on the base layer is left out: its status is not looked at and
  its response is freed.  The session parameters are written as soon as the DLLP is
  decoded, before the physical layer identifier is looked at.
\<close>

definition t1prime_activate :: "world \<Rightarrow> (error + unit) \<times> world" where
  "t1prime_activate w =
     (let w0 = w\<lparr>protocol_state :=
                  (protocol_state w)\<lparr>ifsc := T1PRIME_DEFAULT_IFSC, bwt := T1PRIME_DEFAULT_BWT\<rparr>\<rparr>
      in case i2c_set_clock_frequency w0 T1PRIME_DEFAULT_I2C_CLOCK_FREQUENCY of
           (Inl e, w1) \<Rightarrow> (Inl e, w1)
         | (Inr u, w1) \<Rightarrow>
             (case s_cip w1 of
                (Inl e, w2) \<Rightarrow> (Inl e, w2)
              | (Inr cip, w2) \<Rightarrow>
                  (case t1prime_dllp_decode (dllp cip) of
                     Inl e \<Rightarrow> (Inl e, w2)
                   | Inr d \<Rightarrow>
                       let w3 = w2\<lparr>protocol_state :=
                                   (protocol_state w2)\<lparr>bwt := dllp_bwt d,
                                                        ifsc := unat (dllp_ifsc d)\<rparr>\<rparr>
                       in if plid cip = PLID_I2C
                          then
                            (case t1prime_i2c_plp_decode (plp cip) of
                               Inl e \<Rightarrow> (Inl e, w3)
                             | Inr p \<Rightarrow>
                                 (case i2c_set_clock_frequency w3 (unat (mcf p) * 1000) of
                                    (Inl e, w4) \<Rightarrow> (Inl e, w4)
                                  | (Inr u, w4) \<Rightarrow>
                                      s_resynch
                                        (w4\<lparr>protocol_state :=
                                              (protocol_state w4)\<lparr>mpot := plp_mpot p\<rparr>\<rparr>)))
                          else (Inl (IFX_ERROR T1PRIME_CIP_VALIDATE INVALID_PLID), w3))))"

section \<open>Transceive\<close>

text \<open>
  The local variables of \<open>t1prime_transceive\<close> that live across iterations of its first
  loop.  \<open>remaining - last_information_size\<close> is an unsigned subtraction in C; it never
  wraps, because \<open>last_information_size\<close> is a minimum with \<open>remaining\<close> when it is set
  and is only made smaller afterwards.
\<close>

record send_state =
  transmission_block :: Block
  last_information_size :: nat
  offset :: nat
  remaining :: nat
  aborted :: bool

text \<open>
  One iteration of the first \<open>while (true)\<close>: go round again, leave the loop with the
  response block (\<open>break\<close>), or return an error.
\<close>

datatype send_outcome = SendAgain send_state | SendBreak Block | SendReturn error

definition toggle_send_counter :: "world \<Rightarrow> world" where
  "toggle_send_counter w =
     w\<lparr>protocol_state :=
         (protocol_state w)\<lparr>send_counter := send_counter (protocol_state w) XOR 0x01\<rparr>\<rparr>"

definition toggle_receive_counter :: "world \<Rightarrow> world" where
  "toggle_receive_counter w =
     w\<lparr>protocol_state :=
         (protocol_state w)\<lparr>receive_counter := receive_counter (protocol_state w) XOR 0x01\<rparr>\<rparr>"

definition dispatch_sent :: "byte list \<Rightarrow> world \<Rightarrow> send_state \<Rightarrow> Block \<Rightarrow> send_outcome \<times> world" where
  "dispatch_sent data w s response_block =
     (let st = protocol_state w; tb = transmission_block s in
      if T1PRIME_PCB_IS_I (pcb response_block)
      then
        if remaining s - last_information_size s > 0
        then (SendReturn (IFX_ERROR PROTOCOL_TRANSCEIVE INVALID_BLOCK), w)
        else (SendBreak response_block, toggle_send_counter w)
      else if T1PRIME_PCB_IS_R (pcb response_block)
      then
        if send_counter st XOR 0x01 = T1PRIME_PCB_R_GET_NR (pcb response_block)
        then
          if aborted s
          then (SendReturn (IFX_ERROR PROTOCOL_TRANSCEIVE TRANSCEIVE_ABORTED), w)
          else if remaining s - last_information_size s = 0
          then
            (SendAgain (s\<lparr>transmission_block :=
                           tb\<lparr>pcb := T1PRIME_PCB_R_CRC (receive_counter st),
                              information := [], information_size := 0\<rparr>\<rparr>), w)
          else
            let remaining' = remaining s - last_information_size s;
                offset' = offset s + last_information_size s;
                w' = toggle_send_counter w;
                st' = protocol_state w';
                size = (if remaining' < ifsc st' then remaining' else ifsc st')
            in (SendAgain
                  \<lparr>transmission_block =
                     tb\<lparr>pcb := T1PRIME_PCB_I (send_counter st') (remaining' - size > 0),
                        information := take size (drop offset' data),
                        information_size := size\<rparr>,
                   last_information_size = size, offset = offset', remaining = remaining',
                   aborted = aborted s\<rparr>, w')
        else
          (SendAgain
             (s\<lparr>transmission_block :=
                  tb\<lparr>pcb := T1PRIME_PCB_I (send_counter st)
                               (remaining s - last_information_size s > 0),
                     information_size := last_information_size s,
                     information := take (last_information_size s) (drop (offset s) data)\<rparr>\<rparr>),
           w)
      else if pcb response_block = T1PRIME_PCB_S_WTX_REQ
      then
        if information_size response_block \<noteq> 1
        then (SendReturn (IFX_ERROR PROTOCOL_TRANSCEIVE INVALID_BLOCK), w)
        else
          (SendAgain (s\<lparr>transmission_block :=
                         tb\<lparr>pcb := T1PRIME_PCB_S_WTX_RESP,
                            information := information response_block,
                            information_size := information_size response_block\<rparr>\<rparr>),
           w\<lparr>protocol_state :=
               st\<lparr>wtx_delay := unat (information response_block ! 0) * unat (bwt st)\<rparr>\<rparr>)
      else if pcb response_block = T1PRIME_PCB_S_IFS_REQ
      then
        (case t1prime_ifs_decode (information response_block) (information_size response_block) of
           Inl e \<Rightarrow> (SendReturn e, w)
         | Inr ifs \<Rightarrow>
             (SendAgain
                (s\<lparr>last_information_size :=
                      (if ifs < last_information_size s then ifs else last_information_size s),
                    transmission_block :=
                      tb\<lparr>pcb := T1PRIME_PCB_S_IFS_RESP,
                         information := information response_block,
                         information_size := information_size response_block\<rparr>\<rparr>),
              w))
      else if pcb response_block = T1PRIME_PCB_S_ABORT_REQ
      then
        (SendAgain (s\<lparr>transmission_block :=
                       tb\<lparr>pcb := T1PRIME_PCB_S_ABORT_RESP, information := [],
                          information_size := 0\<rparr>,
                     aborted := True\<rparr>), w)
      else (SendReturn (IFX_ERROR PROTOCOL_TRANSCEIVE INVALID_BLOCK), w))"

definition send_step :: "byte list \<Rightarrow> world \<Rightarrow> send_state \<Rightarrow> send_outcome \<times> world" where
  "send_step data w s =
     (case t1prime_block_transceive w (transmission_block s) of
        (Inl e, w') \<Rightarrow> (SendReturn e, w')
      | (Inr response_block, w') \<Rightarrow> dispatch_sent data w' s response_block)"


text \<open>
  The second \<open>while (true)\<close> works on the last response block and on the response buffer
  (\<open>*response\<close>, \<open>NULL\<close> until the first I-block with data has been taken over).  The
  block it sends keeps the NAD 0x21 that \<open>t1prime_transceive\<close> stored at its start.
\<close>

record recv_state =
  response_block :: Block
  response :: "byte list option"

datatype recv_outcome = RecvAgain recv_state | RecvBreak "byte list" | RecvReturn error

text \<open>
  The end of the I-block branch, once the information has been added to the buffer:
  toggle the receive counter, then acknowledge and read on when more data follows, or
  leave the loop.
\<close>

definition after_i_block :: "world \<Rightarrow> Block \<Rightarrow> byte list \<Rightarrow> recv_outcome \<times> world" where
  "after_i_block w rb acc =
     (let w1 = toggle_receive_counter w in
      if T1PRIME_PCB_I_HAS_MORE (pcb rb)
      then
        (case t1prime_block_transceive w1
                \<lparr>nad = 0x21, pcb = T1PRIME_PCB_R_ACK (receive_counter (protocol_state w1)),
                 information_size = 0, information = []\<rparr> of
           (Inl e, w2) \<Rightarrow> (RecvReturn e, w2)
         | (Inr rb', w2) \<Rightarrow> (RecvAgain \<lparr>response_block = rb', response = Some acc\<rparr>, w2))
      else (RecvBreak acc, w1))"

definition recv_step :: "world \<Rightarrow> recv_state \<Rightarrow> recv_outcome \<times> world" where
  "recv_step w st =
     (let rb = response_block st; ps = protocol_state w in
      if T1PRIME_PCB_IS_I (pcb rb)
      then
        if T1PRIME_PCB_I_GET_NS (pcb rb) \<noteq> receive_counter ps
        then (RecvReturn (IFX_ERROR PROTOCOL_TRANSCEIVE INVALID_BLOCK), w)
        else
          (case response st of
             None \<Rightarrow>
               if information_size rb = 0
               then (RecvReturn (IFX_ERROR PROTOCOL_TRANSCEIVE INVALID_BLOCK), w)
               else after_i_block w rb (take (information_size rb) (information rb))
           | Some r \<Rightarrow>
               if information_size rb > 0
               then after_i_block w rb (r @ take (information_size rb) (information rb))
               else after_i_block w rb r)
      else if T1PRIME_PCB_IS_R (pcb rb)
      then
        let response' =
              (if T1PRIME_PCB_R_GET_NR (pcb rb) \<noteq> send_counter ps then None else response st)
        in case t1prime_block_transceive w
                  \<lparr>nad = 0x21, pcb = T1PRIME_PCB_R_ACK (receive_counter ps),
                   information_size = 0, information = []\<rparr> of
             (Inl e, w2) \<Rightarrow> (RecvReturn e, w2)
           | (Inr rb', w2) \<Rightarrow> (RecvAgain \<lparr>response_block = rb', response = response'\<rparr>, w2)
      else if pcb rb = T1PRIME_PCB_S_ABORT_REQ
      then
        (case t1prime_block_transceive w
                \<lparr>nad = 0x21, pcb = T1PRIME_PCB_S_ABORT_RESP, information_size = 0,
                 information = []\<rparr> of
           (r, w2) \<Rightarrow> (RecvReturn (IFX_ERROR PROTOCOL_TRANSCEIVE TRANSCEIVE_ABORTED), w2))
      else (RecvReturn (IFX_ERROR PROTOCOL_TRANSCEIVE INVALID_BLOCK), w))"

text \<open>
  The two loops of \<open>t1prime_transceive\<close>.  The first hands over to the second at its
  \<open>break\<close>.  Each further iteration has received a block, so the loops end when the
  driver has nothing more to deliver.
\<close>

function send_loop :: "byte list \<Rightarrow> world \<Rightarrow> send_state \<Rightarrow> (error + byte list) \<times> world"
  and recv_loop :: "world \<Rightarrow> recv_state \<Rightarrow> (error + byte list) \<times> world" where
  "send_loop data w s =
     (case send_step data w s of
        (SendAgain s', w') \<Rightarrow> send_loop data w' s'
      | (SendBreak rb, w') \<Rightarrow> recv_loop w' \<lparr>response_block = rb, response = None\<rparr>
      | (SendReturn e, w') \<Rightarrow> (Inl e, w'))"
| "recv_loop w st =
     (case recv_step w st of
        (RecvAgain st', w') \<Rightarrow> recv_loop w' st'
      | (RecvBreak acc, w') \<Rightarrow> (Inr acc, w')
      | (RecvReturn e, w') \<Rightarrow> (Inl e, w'))"
  by pat_completeness auto
termination
proof -
  have dr: "length (incoming w') \<le> length (incoming w) \<and>
            (is_ok r \<longrightarrow> length (incoming w') < length (incoming w))"
    if "driver_receive w n = (r, w')" for w n r w'
    using that by (auto simp add: driver_receive_def split: list.splits)
  have pn: "length (incoming w') \<le> length (incoming w) \<and>
            (b \<noteq> 0 \<longrightarrow> length (incoming w') < length (incoming w))"
    if "poll_nad n w = (b, w')" for n w b w'
    using that
  proof (induction n arbitrary: w)
    case 0
    then show ?case by simp
  next
    case (Suc n)
    obtain r w1 where d: "driver_receive w 1 = (r, w1)" by (cases "driver_receive w 1")
    from dr [OF d] have le: "length (incoming w1) \<le> length (incoming w)"
      and lt: "is_ok r \<Longrightarrow> length (incoming w1) < length (incoming w)" by simp_all
    show ?case
    proof (cases r)
      case (Inl e)
      with Suc.prems d have "poll_nad n w1 = (b, w')" by simp
      from Suc.IH [OF this] le show ?thesis by auto
    next
      case (Inr buf)
      then have ok: "length (incoming w1) < length (incoming w)" using lt by simp
      show ?thesis
      proof (cases "length buf = 1 \<and> buf ! 0 \<noteq> 0x00 \<and> buf ! 0 \<noteq> 0xFF")
        case True
        with Suc.prems d Inr have "w' = w1" by simp
        with ok show ?thesis by simp
      next
        case False
        with Suc.prems d Inr have "poll_nad n w1 = (b, w')" by auto
        from Suc.IH [OF this] ok show ?thesis by auto
      qed
    qed
  qed
  have ep: "length (incoming w') \<le> length (incoming w)"
    if "receive_epilogue w b = (r, w')" for w b r w'
    using that
    by (auto simp add: receive_epilogue_def Let_def split: prod.splits sum.splits if_splits
        dest: dr)
  have rf: "length (incoming w') \<le> length (incoming w) \<and>
            (is_ok r \<longrightarrow> length (incoming w') < length (incoming w))"
    if run: "receive_frames w = (r, w')" for w r w'
  proof -
    obtain n w0 where t: "timer_set w = (n, w0)" by (cases "timer_set w")
    obtain b w1 where p: "poll_nad n w0 = (b, w1)" by (cases "poll_nad n w0")
    have i0: "incoming w0 = incoming w"
      using t by (auto simp add: timer_set_def split: list.splits)
    from pn [OF p] i0
    have le: "length (incoming w1) \<le> length (incoming w)"
      and lt: "b \<noteq> 0 \<Longrightarrow> length (incoming w1) < length (incoming w)" by simp_all
    show ?thesis
    proof (cases "b = 0")
      case True
      with run t p le show ?thesis by (auto simp add: receive_frames_def)
    next
      case False
      from lt [OF False] have ok: "length (incoming w1) < length (incoming w)" .
      have "length (incoming w') \<le> length (incoming w1)"
        using run t p False
        by (auto simp add: receive_frames_def Let_def split: prod.splits sum.splits if_splits
            dest!: dr ep)
      with ok show ?thesis by simp
    qed
  qed
  have br: "length (incoming w') \<le> length (incoming w) \<and>
            (is_ok r \<longrightarrow> length (incoming w') < length (incoming w))"
    if "t1prime_block_receive w = (r, w')" for w r w'
    using that by (auto simp add: t1prime_block_receive_def split: prod.splits dest: rf)
  have at: "length (incoming w') \<le> length (incoming w) \<and>
            (\<forall>x. a = Return (Inr x) \<longrightarrow> length (incoming w') < length (incoming w))"
    if run: "transceive_attempt w b t = (a, w')" for w b t a w'
  proof -
    obtain r1 w1 where t: "t1prime_block_transmit w t = (r1, w1)"
      by (cases "t1prime_block_transmit w t")
    have i1: "incoming w1 = incoming w"
      using t
      by (auto simp add: t1prime_block_transmit_def driver_transmit_def
          split: if_splits list.splits)
    show ?thesis
    proof (cases r1)
      case (Inl e)
      with run t i1 show ?thesis by (auto simp add: transceive_attempt_def)
    next
      case (Inr u)
      obtain r2 w2 where r: "t1prime_block_receive (wait_wtx w1) = (r2, w2)"
        by (cases "t1prime_block_receive (wait_wtx w1)")
      have "incoming (wait_wtx w1) = incoming w" using i1 by (simp add: wait_wtx_def)
      with br [OF r]
      have le: "length (incoming w2) \<le> length (incoming w)"
        and lt: "is_ok r2 \<Longrightarrow> length (incoming w2) < length (incoming w)" by simp_all
      from run t Inr r have "w' = w2" and "\<And>x. a = Return (Inr x) \<Longrightarrow> is_ok r2"
        by (auto simp add: transceive_attempt_def split: sum.splits)
      with le lt show ?thesis by blast
    qed
  qed
  have lp: "length (incoming w') \<le> length (incoming w) \<and>
            (is_ok r \<longrightarrow> length (incoming w') < length (incoming w))"
    if "block_transceive_loop w b t n = (r, w')" for w b t n r w'
    using that
  proof (induction w b t n rule: block_transceive_loop.induct)
    case (1 w block to_send k)
    obtain a w1 where a: "transceive_attempt w block to_send = (a, w1)"
      by (cases "transceive_attempt w block to_send")
    from at [OF a]
    have le: "length (incoming w1) \<le> length (incoming w)"
      and lt: "\<And>x. a = Return (Inr x) \<Longrightarrow> length (incoming w1) < length (incoming w)"
      by simp_all
    show ?case
    proof (cases a)
      case (Return x)
      with "1.prems" a have "r = x" "w' = w1"
        by (simp_all add: block_transceive_loop.simps [of w])
      with le lt Return show ?thesis by (cases x) auto
    next
      case (Failed status)
      show ?thesis
      proof (cases "Suc k \<le> T1PRIME_BLOCK_TRANSCEIVE_RETRIES")
        case True
        with "1.prems" a Failed
        have "block_transceive_loop w1 block (next_to_send w1 block to_send) (Suc k) = (r, w')"
          by (simp add: block_transceive_loop.simps [of w])
        from "1.IH" [OF a [symmetric] Failed True this] le show ?thesis by auto
      next
        case False
        with "1.prems" a Failed have "r = Inl status" "w' = w1"
          by (simp_all add: block_transceive_loop.simps [of w])
        with le show ?thesis by simp
      qed
    qed
  qed
  have bt: "length (incoming w') < length (incoming w)"
    if "t1prime_block_transceive w b = (Inr x, w')" for w b x w'
    using lp [of w b b 0 "Inr x" w'] that by (simp add: t1prime_block_transceive_def)
  have ds: "incoming w' = incoming w"
    if "dispatch_sent data w s rb = (out, w')" for data w s rb out w'
    using that
    by (auto simp add: dispatch_sent_def Let_def toggle_send_counter_def
        split: if_splits sum.splits)
  have ss: "length (incoming w') < length (incoming w)"
    if "send_step data w s = (out, w')" and "out = SendAgain s' \<or> out = SendBreak rb"
    for data w s out w' s' rb
    using that
    by (auto simp add: send_step_def split: prod.splits sum.splits dest!: bt ds)
  have ai: "length (incoming w') < length (incoming w)"
    if "after_i_block w rb acc = (RecvAgain st', w')" for w rb acc st' w'
    using that
    by (auto simp add: after_i_block_def Let_def toggle_receive_counter_def
        split: if_splits prod.splits sum.splits dest!: bt)
  have rs: "length (incoming w') < length (incoming w)"
    if "recv_step w st = (RecvAgain st', w')" for w st st' w'
    using that
    by (auto simp add: recv_step_def Let_def
        split: if_splits option.splits prod.splits sum.splits dest!: bt ai)
  show ?thesis
  proof (relation "measure (\<lambda>x. case x of
                      Inl (data, w, s) \<Rightarrow> 2 * length (incoming w) + 1
                    | Inr (w, st) \<Rightarrow> 2 * length (incoming w))", goal_cases)
    case 1
    show ?case by simp
  next
    case (2 data w s out w' s')
    from ss [of data w s out w' s'] 2 show ?case by simp
  next
    case (3 data w s out w' rb)
    from ss [of data w s out w' _ rb] 3 show ?case by simp
  next
    case (4 w st out w' st')
    from rs [of w st st' w'] 4 show ?case by simp
  qed
qed


definition t1prime_transceive :: "world \<Rightarrow> byte list \<Rightarrow> (error + byte list) \<times> world" where
  "t1prime_transceive w data =
     (if data = [] \<or> length data = 0
      then (Inl (IFX_ERROR PROTOCOL_TRANSCEIVE ILLEGAL_ARGUMENT), w)
      else
        let st = protocol_state w;
            size = (if length data < ifsc st then length data else ifsc st)
        in send_loop data w
             \<lparr>transmission_block =
                \<lparr>nad = 0x21,
                 pcb = T1PRIME_PCB_I (send_counter st) (length data - size > 0),
                 information_size = size, information = take size data\<rparr>,
              last_information_size = size, offset = 0, remaining = length data,
              aborted = False\<rparr>)"

section \<open>The mock driver of the protocol tests\<close>

text \<open>
  \<open>BlockWrapper::frames\<close> of \<open>t1prime-protocol-tests.cpp\<close>: a block from the card as the
  engine reads it, one driver read per frame: the NAD 0x12, then PCB and LEN, then the
  information field when there is one, then the CRC.
\<close>

definition BlockWrapper_frames :: "byte \<Rightarrow> byte list \<Rightarrow> (error + byte list) list" where
  "BlockWrapper_frames p info =
     (let prologue = [p, size_hi8 (length info), size_lo8 (length info)];
          crc = crc16_ccitt_x25 (0x12 # prologue @ info)
      in [Inr [0x12], Inr prologue] @ (if info = [] then [] else [Inr info])
           @ [Inr [hi8 crc, lo8 crc]])"

text \<open>
  \<open>BlockWrapper::block\<close>: a block from the host, as the bytes the driver is given.
\<close>

definition BlockWrapper_block :: "byte \<Rightarrow> byte list \<Rightarrow> byte list" where
  "BlockWrapper_block p info =
     t1prime_block_encode
       \<lparr>nad = NAD_HD_TO_SE, pcb = p, information_size = length info, information = info\<rparr>"

text \<open>
  A freshly initialised engine on a driver that will deliver the given reads and never
  fails to transmit; every block waiting timer allows one poll.
\<close>

definition mock_world :: "(error + byte list) list \<Rightarrow> world" where
  "mock_world responses =
     \<lparr>protocol_state = initial_protocol_state, incoming = responses, transmit_results = [],
      polls = replicate (length responses) 1, i2c_fault = None, clock_frequency = 0,
      trace = []\<rparr>"

fun transmitted :: "event list \<Rightarrow> byte list list" where
  "transmitted [] = []"
| "transmitted (Transmit data r # es) = data # transmitted es"
| "transmitted (Receive r # es) = transmitted es"

definition set_ifsc :: "world \<Rightarrow> nat \<Rightarrow> world" where
  "set_ifsc w n = w\<lparr>protocol_state := (protocol_state w)\<lparr>ifsc := n\<rparr>\<rparr>"


section \<open>Observations on a run\<close>

text \<open>
  The events a call has added to the trace, and the receptions among them.
\<close>

definition new_events :: "world \<Rightarrow> world \<Rightarrow> event list" where
  "new_events w w' = drop (length (trace w)) (trace w')"

fun receptions :: "event list \<Rightarrow> (error + Block) list" where
  "receptions [] = []"
| "receptions (Transmit data r # es) = receptions es"
| "receptions (Receive r # es) = r # receptions es"

text \<open>
  A reception is rejected for the block \<open>block\<close> when it failed, or when it delivered a
  block that \<open>t1prime_block_transceive\<close> does not hand back to its caller.
\<close>

fun rejected :: "T1PrimeProtocolState \<Rightarrow> Block \<Rightarrow> error + Block \<Rightarrow> bool" where
  "rejected st block (Inl e) = True"
| "rejected st block (Inr response_buffer) =
     (validate_response st block response_buffer \<noteq> Return (Inr response_buffer))"

text \<open>
  The error an event stands for: the status of a failed transmission or reception, and
  \<open>INVALID_BLOCK\<close> for a block that was received.
\<close>

fun event_error :: "event \<Rightarrow> error option" where
  "event_error (Transmit data (Inl e)) = Some e"
| "event_error (Transmit data (Inr u)) = None"
| "event_error (Receive (Inl e)) = Some e"
| "event_error (Receive (Inr b)) = Some (IFX_ERROR PROTOCOL_TRANSCEIVE INVALID_BLOCK)"

text \<open>
  The block a retry sends according to the claim: the same block for a request S-block,
  otherwise \<open>R(crc_error, N(R) = receive counter)\<close> with no information.
\<close>

definition resent :: "T1PrimeProtocolState \<Rightarrow> Block \<Rightarrow> Block" where
  "resent st block =
     (if is_s_request block then block
      else \<lparr>nad = 0x21, pcb = 0x81 OR (if receive_counter st \<noteq> 0 then 0x10 else 0x00),
            information_size = 0, information = []\<rparr>)"


section \<open>Byte packing lemmas\<close>


lemma mask_FF: "(0xFF::nat) = mask 8"
  by (simp add: mask_eq_exp_minus_1)

lemma mask_FF00: "(0xFF00::nat) = push_bit 8 (mask 8)"
  by (simp add: mask_eq_exp_minus_1 push_bit_eq_mult)

lemma wmask_FF: "(0xFF::16 word) = mask 8"
  by (simp add: mask_eq_exp_minus_1)

lemma wmask_FF00: "(0xFF00::16 word) = push_bit 8 (mask 8)"
  by (simp add: mask_eq_exp_minus_1 push_bit_eq_mult)

lemma size_be_split:
  assumes "n < 2 ^ 16"
  shows "size_be (size_hi8 n) (size_lo8 n) = n"
proof -
  from assms have t: "take_bit 16 n = n"
    by (simp add: take_bit_nat_eq_self)
  have r: "bit n k \<Longrightarrow> k < 16" for k
    using bit_take_bit_iff [of 16 n k] by (simp add: t)
  show ?thesis
    unfolding size_be_def size_hi8_def size_lo8_def mask_FF mask_FF00
    by (intro bit_eqI) (auto simp add: bit_simps unsigned_of_nat dest: r)
qed

lemma size_hi8_be [simp]: "size_hi8 (size_be a b) = a"
  unfolding size_be_def size_hi8_def mask_FF mask_FF00
  by (rule bit_word_eqI) (auto simp add: bit_simps unsigned_of_nat dest: bit_imp_le_length)

lemma size_lo8_be [simp]: "size_lo8 (size_be a b) = b"
  unfolding size_be_def size_lo8_def mask_FF
  by (rule bit_word_eqI) (auto simp add: bit_simps unsigned_of_nat dest: bit_imp_le_length)

lemma size_be_eq: "size_be a b = 256 * unat a + unat b"
proof -
  have "push_bit 8 (unat a) + unat b = push_bit 8 (unat a) OR unat b"
    by (rule disjunctive_add_eq_or, rule bit_eqI) (auto simp add: bit_simps dest: bit_imp_le_length)
  then show ?thesis by (simp add: size_be_def push_bit_eq_mult)
qed

lemma u16_be_split [simp]: "u16_be (hi8 c) (lo8 c) = c"
  unfolding u16_be_def hi8_def lo8_def wmask_FF wmask_FF00
  by (rule bit_word_eqI) (auto simp add: bit_simps dest: bit_imp_le_length)

lemma hi8_u16_be [simp]: "hi8 (u16_be a b) = a"
  unfolding u16_be_def hi8_def wmask_FF wmask_FF00
  by (rule bit_word_eqI) (auto simp add: bit_simps dest: bit_imp_le_length)

lemma lo8_u16_be [simp]: "lo8 (u16_be a b) = b"
  unfolding u16_be_def lo8_def wmask_FF
  by (rule bit_word_eqI) (auto simp add: bit_simps dest: bit_imp_le_length)

lemma u16_be_eq_iff: "u16_be a b = c \<longleftrightarrow> a = hi8 c \<and> b = lo8 c"
  by auto

lemma hi8_eq: "hi8 c = ucast (drop_bit 8 c)"
  unfolding hi8_def wmask_FF00
  by (rule bit_word_eqI) (auto simp add: bit_simps dest: bit_imp_le_length)

lemma lo8_eq: "lo8 c = ucast c"
  unfolding lo8_def wmask_FF
  by (rule bit_word_eqI) (auto simp add: bit_simps dest: bit_imp_le_length)

section \<open>Block codec: round trip and decoding outcome\<close>


lemma prologue_length [simp]: "length (block_prologue b) = 4"
  by (simp add: block_prologue_def)

lemma decode_encode:
  assumes "block_wf b"
  shows "t1prime_block_decode (t1prime_block_encode b) = Inr b"
proof -
  let ?n = "information_size b"
  from assms have len: "length (information b) = ?n" and bound: "?n < 2 ^ 16"
    by (simp_all add: block_wf_def)
  let ?c = "crc16_ccitt_x25 (block_prologue b @ information b)"
  have enc: "t1prime_block_encode b
      = nad b # pcb b # size_hi8 ?n # size_lo8 ?n # information b @ [hi8 ?c, lo8 ?c]"
    using len by (simp add: t1prime_block_encode_def block_prologue_def Let_def)
  show ?thesis
    unfolding enc t1prime_block_decode_def
    using len bound
    by (simp add: BLOCK_PROLOGUE_LENGTH_def BLOCK_EPILOGUE_LENGTH_def Let_def
        size_be_split nth_append t1prime_validate_crc_def block_prologue_def)
qed





lemma size_be_LEN: "size_be (x ! 2) (x ! 3) = LEN x"
  by (simp add: size_be_eq LEN_def)

lemma be16_bytes: "be16 c = [hi8 c, lo8 c]"
  by (simp add: be16_def hi8_eq lo8_eq)

lemma prologue_len4 [simp]: "BLOCK_PROLOGUE_LENGTH = 4"
  by (simp add: BLOCK_PROLOGUE_LENGTH_def)

lemma frame_shape:
  assumes "length x = 4 + n + 2"
  obtains a b c d info p q where "x = a # b # c # d # info @ [p, q]" and "length info = n"
proof -
  obtain a x1 where 1: "x = a # x1" using assms by (cases x) auto
  obtain b x2 where 2: "x1 = b # x2" using assms 1 by (cases x1) auto
  obtain c x3 where 3: "x2 = c # x3" using assms 1 2 by (cases x2) auto
  obtain d x4 where 4: "x3 = d # x4" using assms 1 2 3 by (cases x3) auto
  have l4: "length x4 = n + 2" using assms 1 2 3 4 by simp
  define info where "info = take n x4"
  define t where "t = drop n x4"
  have lt: "length t = 2" using l4 by (simp add: t_def)
  obtain p t1 where 5: "t = p # t1" using lt by (cases t) auto
  obtain q t2 where 6: "t1 = q # t2" using lt 5 by (cases t1) auto
  have 7: "t2 = []" using lt 5 6 by simp
  have "x4 = info @ t" by (simp add: info_def t_def)
  then have "x = a # b # c # d # info @ [p, q]" by (simp add: 1 2 3 4 5 6 7)
  moreover have "length info = n" using l4 by (simp add: info_def)
  ultimately show ?thesis by (rule that)
qed

lemma block_decode_cases:
  "t1prime_block_decode x =
     (if length x < 6 then Inl (IFX_ERROR T1PRIME_BLOCK_DECODE TOO_LITTLE_DATA)
      else if length x \<noteq> 4 + LEN x + 2
        then Inl (IFX_ERROR T1PRIME_BLOCK_DECODE INFORMATIONSIZE_MISMATCH)
      else if \<not> crc_field_ok x then Inl (IFX_ERROR T1PRIME_BLOCK_DECODE INVALID_CRC)
      else Inr \<lparr>nad = x ! 0, pcb = x ! 1, information_size = LEN x,
                 information = take (LEN x) (drop 4 x)\<rparr>)"
proof (cases "length x < 6 \<or> length x \<noteq> 4 + LEN x + 2")
  case True
  then show ?thesis
    by (auto simp add: t1prime_block_decode_def BLOCK_EPILOGUE_LENGTH_def size_be_LEN Let_def)
next
  case False
  then have n: "length x = 4 + LEN x + 2" by simp
  from n obtain a b c d info p q
    where x: "x = a # b # c # d # info @ [p, q]" and li: "length info = LEN x"
    by (rule frame_shape)
  have sz: "size_be c d = LEN x" using size_be_LEN [of x] by (simp add: x)
  have hl: "size_hi8 (LEN x) = c" "size_lo8 (LEN x) = d"
    using sz size_hi8_be [of c d] size_lo8_be [of c d] by simp_all
  have lx: "length x - 2 = 4 + LEN x" "length x - 1 = 5 + LEN x" using n by simp_all
  have nth: "x ! (4 + LEN x) = p" "x ! (5 + LEN x) = q" "x ! 0 = a" "x ! 1 = b"
    "x ! 2 = c" "x ! 3 = d"
    using li by (simp_all add: x nth_Cons' nth_append)
  have tk: "take (LEN x) (drop 4 x) = info" "take (4 + LEN x) x = a # b # c # d # info"
    "drop (4 + LEN x) x = [p, q]"
    using li by (simp_all add: x take_Cons' drop_Cons')
  have ok: "crc_field_ok x \<longleftrightarrow> crc16_ccitt_x25 (a # b # c # d # info) = u16_be p q"
    unfolding crc_field_ok_def lx tk be16_bytes by (auto simp add: u16_be_eq_iff)
  show ?thesis
    unfolding t1prime_block_decode_def Let_def t1prime_validate_crc_def prologue_len4
      BLOCK_EPILOGUE_LENGTH_def nth sz lx tk ok block_prologue_def
    using n li by (simp add: hl)
qed

lemma encode_decode:
  assumes "t1prime_block_decode x = Inr b"
  shows "t1prime_block_encode b = x"
proof -
  define L where "L = LEN x"
  from assms have n: "length x = 4 + L + 2" and ok: "crc_field_ok x"
    and b: "b = \<lparr>nad = x ! 0, pcb = x ! 1, information_size = L,
                 information = take L (drop 4 x)\<rparr>"
    by (auto simp add: block_decode_cases L_def split: if_splits)
  from n obtain a0 b0 c d info p q
    where x: "x = a0 # b0 # c # d # info @ [p, q]" and li: "length info = L"
    by (rule frame_shape)
  have sz: "size_be c d = L" using size_be_LEN [of x] by (simp add: x L_def)
  have hl: "size_hi8 L = c" "size_lo8 L = d"
    using sz size_hi8_be [of c d] size_lo8_be [of c d] by simp_all
  have lx: "length x - 2 = 4 + L" using n by simp
  have tk: "take L (drop 4 x) = info" "take (4 + L) x = a0 # b0 # c # d # info"
    "drop (4 + L) x = [p, q]"
    using li by (simp_all add: x take_Cons' drop_Cons')
  have nth: "x ! 0 = a0" "x ! 1 = b0" by (simp_all add: x)
  have pq: "[p, q] = [hi8 (crc16_ccitt_x25 (a0 # b0 # c # d # info)),
                      lo8 (crc16_ccitt_x25 (a0 # b0 # c # d # info))]"
    using ok unfolding crc_field_ok_def L_def [symmetric] lx tk be16_bytes by simp
  have "t1prime_block_encode b = a0 # b0 # c # d # info @ [p, q]"
    unfolding t1prime_block_encode_def Let_def b block_prologue_def tk nth
    using li pq by (simp add: hl)
  then show ?thesis by (simp add: x)
qed



lemma crc_update_unroll:
  "crc_update c b =
     crc_shift (crc_shift (crc_shift (crc_shift (crc_shift (crc_shift (crc_shift (crc_shift
       (c XOR ucast b))))))))"
  by (simp add: crc_update_def eval_nat_numeral)

lemmas crc_eval = crc16_ccitt_x25_def crc_update_unroll crc_shift_def

lemma crc_test_vector: "crc16_ccitt_x25 [0x01, 0x02, 0x03, 0x04] = 0x3991"
  by (simp add: crc_eval)

text \<open>
  Claim C2.  Decoding the bytes produced by \<open>t1prime_block_encode\<close> for a well-formed
  block succeeds and yields that block; and whenever \<open>t1prime_block_decode\<close> succeeds on
  a byte string, encoding the decoded block gives the same byte string back.
\<close>

theorem block_codec_roundtrip:
  "(block_wf b \<longrightarrow> t1prime_block_decode (t1prime_block_encode b) = Inr b) \<and>
   (t1prime_block_decode x = Inr b' \<longrightarrow> t1prime_block_encode b' = x)"
  using decode_encode encode_decode by blast

theorem block_codec_roundtrip_witness:
  "block_wf \<lparr>nad = 0x21, pcb = 0xC1, information_size = 2, information = [0x01, 0x02]\<rparr> \<and>
   t1prime_block_decode (t1prime_block_encode
       \<lparr>nad = 0x21, pcb = 0xC1, information_size = 2, information = [0x01, 0x02]\<rparr>)
     = Inr \<lparr>nad = 0x21, pcb = 0xC1, information_size = 2, information = [0x01, 0x02]\<rparr> \<and>
   t1prime_block_decode [0x21, 0xC1, 0x00, 0x02, 0x01, 0x02, 0xB9, 0x85]
     = Inr \<lparr>nad = 0x21, pcb = 0xC1, information_size = 2, information = [0x01, 0x02]\<rparr> \<and>
   t1prime_block_encode
       \<lparr>nad = 0x21, pcb = 0xC1, information_size = 2, information = [0x01, 0x02]\<rparr>
     = [0x21, 0xC1, 0x00, 0x02, 0x01, 0x02, 0xB9, 0x85]"
proof -
  let ?b = "\<lparr>nad = 0x21, pcb = 0xC1, information_size = 2, information = [0x01, 0x02 :: byte]\<rparr>"
  let ?x = "[0x21, 0xC1, 0x00, 0x02, 0x01, 0x02, 0xB9, 0x85 :: byte]"
  have wf: "block_wf ?b" by (simp add: block_wf_def)
  have crc: "crc16_ccitt_x25 [0x21, 0xC1, 0x00, 0x02, 0x01, 0x02] = 0xB985"
    by (simp add: crc_eval)
  have dec: "t1prime_block_decode ?x = Inr ?b"
    by (simp add: block_decode_cases LEN_def crc_field_ok_def be16_def crc)
  show ?thesis
    using wf dec block_codec_roundtrip [of ?b ?x ?b] by simp
qed

text \<open>
  Claim C3.  \<open>t1prime_block_decode\<close> succeeds exactly when the input has at least 6
  bytes, its length is \<open>4 + LEN + 2\<close>, and its last two bytes are the big-endian CRC of
  the first \<open>4 + LEN\<close> bytes.  It fails with \<open>TOO_LITTLE_DATA\<close> on fewer than 6
  bytes, otherwise with \<open>INFORMATIONSIZE_MISMATCH\<close> when the length differs from
  \<open>4 + LEN + 2\<close>, otherwise with \<open>INVALID_CRC\<close> when only the CRC comparison fails.
\<close>

theorem block_decode_outcome:
  "(is_ok (t1prime_block_decode x) \<longleftrightarrow>
      6 \<le> length x \<and> length x = 4 + LEN x + 2 \<and> crc_field_ok x) \<and>
   (length x < 6 \<longrightarrow>
      t1prime_block_decode x = Inl (IFX_ERROR T1PRIME_BLOCK_DECODE TOO_LITTLE_DATA)) \<and>
   (6 \<le> length x \<and> length x \<noteq> 4 + LEN x + 2 \<longrightarrow>
      t1prime_block_decode x = Inl (IFX_ERROR T1PRIME_BLOCK_DECODE INFORMATIONSIZE_MISMATCH)) \<and>
   (6 \<le> length x \<and> length x = 4 + LEN x + 2 \<and> \<not> crc_field_ok x \<longrightarrow>
      t1prime_block_decode x = Inl (IFX_ERROR T1PRIME_BLOCK_DECODE INVALID_CRC))"
  by (simp add: block_decode_cases)

theorem block_decode_outcome_witness:
  "length [0x21, 0xC1, 0x00 :: byte] < 6 \<and>
   t1prime_block_decode [0x21, 0xC1, 0x00]
     = Inl (IFX_ERROR T1PRIME_BLOCK_DECODE TOO_LITTLE_DATA) \<and>
   (6 \<le> length [0x21, 0xC1, 0x00, 0x01, 0xFF, 0xFF :: byte] \<and>
    length [0x21, 0xC1, 0x00, 0x01, 0xFF, 0xFF :: byte]
      \<noteq> 4 + LEN [0x21, 0xC1, 0x00, 0x01, 0xFF, 0xFF] + 2) \<and>
   t1prime_block_decode [0x21, 0xC1, 0x00, 0x01, 0xFF, 0xFF]
     = Inl (IFX_ERROR T1PRIME_BLOCK_DECODE INFORMATIONSIZE_MISMATCH) \<and>
   (6 \<le> length [0x21, 0xC1, 0x00, 0x00, 0xFF, 0xFF :: byte] \<and>
    length [0x21, 0xC1, 0x00, 0x00, 0xFF, 0xFF :: byte]
      = 4 + LEN [0x21, 0xC1, 0x00, 0x00, 0xFF, 0xFF] + 2 \<and>
    \<not> crc_field_ok [0x21, 0xC1, 0x00, 0x00, 0xFF, 0xFF]) \<and>
   t1prime_block_decode [0x21, 0xC1, 0x00, 0x00, 0xFF, 0xFF]
     = Inl (IFX_ERROR T1PRIME_BLOCK_DECODE INVALID_CRC) \<and>
   (6 \<le> length [0x21, 0x80, 0x00, 0x00, 0x63, 0xDA :: byte] \<and>
    length [0x21, 0x80, 0x00, 0x00, 0x63, 0xDA :: byte]
      = 4 + LEN [0x21, 0x80, 0x00, 0x00, 0x63, 0xDA] + 2 \<and>
    crc_field_ok [0x21, 0x80, 0x00, 0x00, 0x63, 0xDA]) \<and>
   is_ok (t1prime_block_decode [0x21, 0x80, 0x00, 0x00, 0x63, 0xDA])"
proof -
  have c1: "crc16_ccitt_x25 [0x21, 0xC1, 0x00, 0x00] = 0x3F70"
    by (simp add: crc_eval)
  have c2: "crc16_ccitt_x25 [0x21, 0x80, 0x00, 0x00] = 0x63DA"
    by (simp add: crc_eval)
  have h3: "\<not> crc_field_ok [0x21, 0xC1, 0x00, 0x00, 0xFF, 0xFF]"
    by (simp add: crc_field_ok_def LEN_def be16_def c1)
  have h4: "crc_field_ok [0x21, 0x80, 0x00, 0x00, 0x63, 0xDA]"
    by (simp add: crc_field_ok_def LEN_def be16_def c2)
  show ?thesis
    using h3 h4
      block_decode_outcome [of "[0x21, 0xC1, 0x00]"]
      block_decode_outcome [of "[0x21, 0xC1, 0x00, 0x01, 0xFF, 0xFF]"]
      block_decode_outcome [of "[0x21, 0xC1, 0x00, 0x00, 0xFF, 0xFF]"]
      block_decode_outcome [of "[0x21, 0x80, 0x00, 0x00, 0x63, 0xDA]"]
    by (simp add: LEN_def)
qed

text \<open>
  Claim C9.  The claim reads: at construction, before any activation, the session state
  holds IFSC = 8 and BWT = 300 ms, with both counters 0 and no pending WTX delay.  The
  lazy initialisation in \<open>t1prime_get_protocol_state\<close> stores \<open>T1PRIME_MAX_IFS\<close>,
  so the claim as stated fails on the IFSC.
\<close>

theorem initial_state_ifsc_counterexample:
  "\<not> (ifsc initial_protocol_state = 8 \<and> bwt initial_protocol_state = 300)"
  by (simp add: initial_protocol_state_def T1PRIME_MAX_IFS_def)

text \<open>
  Claim C9, amended.  The freshly initialised session state holds IFSC = 0xFF9
  (\<open>T1PRIME_MAX_IFS\<close>) and BWT = 300 ms, with send and receive counters 0 and no
  pending WTX delay.  The default IFSC of 8 is first written by \<open>t1prime_activate\<close>:
  an activation that stops at once, because the clock frequency cannot be set, leaves
  IFSC = 8.
\<close>

theorem initial_state_defaults:
  "ifsc initial_protocol_state = 0xFF9 \<and>
   bwt initial_protocol_state = 300 \<and>
   send_counter initial_protocol_state = 0 \<and>
   receive_counter initial_protocol_state = 0 \<and>
   wtx_delay initial_protocol_state = 0 \<and>
   ifsc (protocol_state (snd (t1prime_activate (w\<lparr>i2c_fault := Some e\<rparr>)))) = 8"
  by (simp add: initial_protocol_state_def T1PRIME_MAX_IFS_def T1PRIME_DEFAULT_BWT_def
      t1prime_activate_def i2c_set_clock_frequency_def T1PRIME_DEFAULT_IFSC_def)

lemma nat_and_FF: "(n::nat) AND 0xFF = n mod 256"
proof -
  have e: "mask 8 = (0xFF::nat)" by (simp add: mask_eq_exp_minus_1)
  have "n AND mask 8 = n mod 2 ^ 8"
    by (simp add: take_bit_eq_mask [symmetric] take_bit_eq_mod)
  then show ?thesis unfolding e by simp
qed

lemma nat_and_F:
  assumes "n \<le> 0xFF9"
  shows "drop_bit 8 (n::nat) AND 0xF = n div 256"
proof -
  have e: "mask 4 = (0xF::nat)" by (simp add: mask_eq_exp_minus_1)
  have "n div 256 < 2 ^ 4" using assms by simp
  then have t: "take_bit 4 (n div 256) = n div 256"
    by (simp add: take_bit_nat_eq_self)
  have "drop_bit 8 n AND mask 4 = take_bit 4 (drop_bit 8 n)"
    by (simp add: take_bit_eq_mask)
  then show ?thesis using t unfolding e by (simp add: drop_bit_eq_div)
qed

lemma ifs_encode_cases:
  "t1prime_ifs_encode n =
     (if n = 0 \<or> n > 0xFF9 then Inl (IFX_ERROR PROTOCOL_SETPROPERTY ILLEGAL_ARGUMENT)
      else if n \<le> 0xFE then Inr [word_of_nat n]
      else Inr [word_of_nat (n div 256), word_of_nat (n mod 256)])"
proof -
  have small: "word_of_nat (n mod 256) = (word_of_nat n :: byte)" if "n \<le> 0xFE"
    using that by simp
  show ?thesis
    using small
    by (auto simp add: t1prime_ifs_encode_def T1PRIME_MAX_IFS_def Let_def nat_and_FF nat_and_F)
qed

lemma driver_receive_keeps:
  "driver_receive w n = (r, w') \<Longrightarrow> trace w' = trace w \<and> protocol_state w' = protocol_state w"
  by (auto simp add: driver_receive_def split: list.splits)

lemma poll_nad_keeps:
  "poll_nad n w = (b, w') \<Longrightarrow> trace w' = trace w \<and> protocol_state w' = protocol_state w"
proof (induction n arbitrary: w)
  case 0
  then show ?case by simp
next
  case (Suc n)
  obtain r w1 where d: "driver_receive w 1 = (r, w1)" by (cases "driver_receive w 1")
  note k = driver_receive_keeps [OF d]
  show ?case
  proof (cases "poll_nad (Suc n) w = poll_nad n w1")
    case True
    with Suc.prems have "poll_nad n w1 = (b, w')" by simp
    from Suc.IH [OF this] k show ?thesis by simp
  next
    case False
    with Suc.prems d have "w' = w1" by (auto split: sum.splits if_splits)
    with k show ?thesis by simp
  qed
qed

lemma receive_epilogue_keeps:
  "receive_epilogue w b = (r, w') \<Longrightarrow> trace w' = trace w \<and> protocol_state w' = protocol_state w"
  by (auto simp add: receive_epilogue_def Let_def split: prod.splits sum.splits if_splits
      dest: driver_receive_keeps)

lemma timer_set_keeps:
  "timer_set w = (n, w') \<Longrightarrow> trace w' = trace w \<and> protocol_state w' = protocol_state w"
  by (auto simp add: timer_set_def split: list.splits)

lemma receive_frames_keeps:
  assumes "receive_frames w = (r, w')"
  shows "trace w' = trace w \<and> protocol_state w' = protocol_state w"
proof -
  obtain n w0 where t: "timer_set w = (n, w0)" by (cases "timer_set w")
  obtain b w1 where p: "poll_nad n w0 = (b, w1)" by (cases "poll_nad n w0")
  have k1: "trace w1 = trace w \<and> protocol_state w1 = protocol_state w"
    using timer_set_keeps [OF t] poll_nad_keeps [OF p] by simp
  have "trace w' = trace w1 \<and> protocol_state w' = protocol_state w1"
    using assms t p
    by (auto simp add: receive_frames_def Let_def split: prod.splits sum.splits if_splits
        dest!: driver_receive_keeps receive_epilogue_keeps)
  with k1 show ?thesis by simp
qed

lemma block_receive_trace:
  "t1prime_block_receive w = (r, w') \<Longrightarrow>
     trace w' = trace w @ [Receive r] \<and> protocol_state w' = protocol_state w"
  by (auto simp add: t1prime_block_receive_def split: prod.splits dest: receive_frames_keeps)

lemma wait_wtx_state [simp]:
  "protocol_state (wait_wtx w) = (protocol_state w)\<lparr>wtx_delay := 0\<rparr>"
  "trace (wait_wtx w) = trace w"
  by (simp_all add: wait_wtx_def)

lemma driver_transmit_trace:
  "driver_transmit w d = (r, w') \<Longrightarrow>
     trace w' = trace w @ [Transmit d r] \<and> protocol_state w' = protocol_state w"
  by (auto simp add: driver_transmit_def split: list.splits)

text \<open>What one pass of the loop does to the trace and to the session state.\<close>

lemma attempt_cases:
  assumes "transceive_attempt w b t = (a, w')"
  shows "(information_size t > ifsc (protocol_state w) \<and> w' = w \<and>
            a = Return (Inl (IFX_ERROR PROTOCOL_TRANSMIT ILLEGAL_ARGUMENT)))
       \<or> (information_size t \<le> ifsc (protocol_state w) \<and>
            (\<exists>e. trace w' = trace w @ [Transmit (t1prime_block_encode t) (Inl e)] \<and>
                 protocol_state w' = protocol_state w \<and> a = Return (Inl e)))
       \<or> (information_size t \<le> ifsc (protocol_state w) \<and>
            (\<exists>x. trace w' = trace w @ [Transmit (t1prime_block_encode t) (Inr ()), Receive x] \<and>
                 protocol_state w' = (protocol_state w)\<lparr>wtx_delay := 0\<rparr> \<and>
                 a = (case x of Inl e \<Rightarrow> Failed e
                      | Inr resp \<Rightarrow> validate_response (protocol_state w') b resp)))"
proof (cases "information_size t > ifsc (protocol_state w)")
  case True
  with assms show ?thesis
    by (simp add: transceive_attempt_def t1prime_block_transmit_def)
next
  case False
  obtain r1 w1 where d: "driver_transmit w (t1prime_block_encode t) = (r1, w1)"
    by (cases "driver_transmit w (t1prime_block_encode t)")
  note k1 = driver_transmit_trace [OF d]
  show ?thesis
  proof (cases r1)
    case (Inl e)
    with assms False d k1 show ?thesis
      by (simp add: transceive_attempt_def t1prime_block_transmit_def)
  next
    case (Inr u)
    obtain x w2 where r: "t1prime_block_receive (wait_wtx w1) = (x, w2)"
      by (cases "t1prime_block_receive (wait_wtx w1)")
    note k2 = block_receive_trace [OF r]
    from assms False d Inr r have "w' = w2"
      and "a = (case x of Inl e \<Rightarrow> Failed e | Inr resp \<Rightarrow> validate_response (protocol_state w2) b resp)"
      by (auto simp add: transceive_attempt_def t1prime_block_transmit_def split: sum.splits)
    with False k1 k2 Inr show ?thesis by (cases x) auto
  qed
qed

lemma validate_response_cases:
  "validate_response st b resp = Return (Inr resp)
   \<or> validate_response st b resp = Return (Inl (IFX_ERROR PROTOCOL_TRANSCEIVE INVALID_BLOCK))
   \<or> validate_response st b resp = Failed (IFX_ERROR PROTOCOL_TRANSCEIVE INVALID_BLOCK)"
  by (simp add: validate_response_def)

lemma validate_response_wtx [simp]:
  "validate_response (st\<lparr>wtx_delay := d\<rparr>) b resp = validate_response st b resp"
  by (simp add: validate_response_def)

lemma rejected_wtx [simp]: "rejected (st\<lparr>wtx_delay := d\<rparr>) b x = rejected st b x"
  by (cases x) simp_all

lemma rejected_cong:
  "st'\<lparr>wtx_delay := 0\<rparr> = st\<lparr>wtx_delay := 0\<rparr> \<Longrightarrow> rejected st' b x = rejected st b x"
  by (metis rejected_wtx)

lemma next_to_send_eq: "next_to_send w b t = (if is_s_request b then t else retry_block (protocol_state w))"
  by (simp add: next_to_send_def is_s_request_def)

lemma retry_block_wtx [simp]: "retry_block (st\<lparr>wtx_delay := d\<rparr>) = retry_block st"
  by (simp add: retry_block_def)

lemma retry_block_cong:
  "st'\<lparr>wtx_delay := 0\<rparr> = st\<lparr>wtx_delay := 0\<rparr> \<Longrightarrow> retry_block st' = retry_block st"
  by (metis retry_block_wtx)

lemma ifsc_cong:
  "st'\<lparr>wtx_delay := 0\<rparr> = st\<lparr>wtx_delay := 0\<rparr> \<Longrightarrow> ifsc st' = ifsc st"
  by (metis T1PrimeProtocolState.select_convs(3) T1PrimeProtocolState.surjective
      T1PrimeProtocolState.update_convs(6))

lemma transmitted_append [simp]: "transmitted (xs @ ys) = transmitted xs @ transmitted ys"
  by (induction xs rule: transmitted.induct) simp_all

lemma receptions_append [simp]: "receptions (xs @ ys) = receptions xs @ receptions ys"
  by (induction xs rule: receptions.induct) simp_all

lemma loop_discipline:
  assumes "block_transceive_loop w b t k = (r, w')"
    and "k \<le> 2"
    and "information_size t \<le> ifsc (protocol_state w)"
    and "information_size (next_to_send w b t) \<le> ifsc (protocol_state w)"
  shows "\<exists>evs. trace w' = trace w @ evs \<and> evs \<noteq> []
       \<and> length (transmitted evs) \<le> 3 - k
       \<and> transmitted evs = take (length (transmitted evs))
            (t1prime_block_encode t # replicate (2 - k) (t1prime_block_encode (next_to_send w b t)))
       \<and> (list_all (rejected (protocol_state w) b) (receptions evs)
            \<longrightarrow> (\<exists>e. r = Inl e \<and> event_error (last evs) = Some e))
       \<and> (protocol_state w')\<lparr>wtx_delay := 0\<rparr> = (protocol_state w)\<lparr>wtx_delay := 0\<rparr>"
  using assms
proof (induction w b t k rule: block_transceive_loop.induct)
  case (1 w block to_send k)
  let ?st = "protocol_state w"
  let ?enc = "t1prime_block_encode to_send"
  let ?nx = "next_to_send w block to_send"
  obtain a w1 where a: "transceive_attempt w block to_send = (a, w1)"
    by (cases "transceive_attempt w block to_send")
  have run: "(case a of Return x \<Rightarrow> (x, w1)
             | Failed status \<Rightarrow>
                 if Suc k \<le> T1PRIME_BLOCK_TRANSCEIVE_RETRIES
                 then block_transceive_loop w1 block (next_to_send w1 block to_send) (Suc k)
                 else (Inl status, w1)) = (r, w')"
    using "1.prems"(1) a by (simp add: block_transceive_loop.simps [of w])
  from attempt_cases [OF a] "1.prems"(3)
  consider
    (tx) e where "trace w1 = trace w @ [Transmit ?enc (Inl e)]" "protocol_state w1 = ?st"
      "a = Return (Inl e)"
  | (rx) x where "trace w1 = trace w @ [Transmit ?enc (Inr ()), Receive x]"
      "protocol_state w1 = ?st\<lparr>wtx_delay := 0\<rparr>"
      "a = (case x of Inl e \<Rightarrow> Failed e | Inr resp \<Rightarrow> validate_response (protocol_state w1) block resp)"
    by fastforce
  then show ?case
  proof cases
    case tx
    with run have "r = Inl e" "w' = w1" by simp_all
    with tx "1.prems"(2) show ?thesis by simp
  next
    case rx
    let ?evs1 = "[Transmit ?enc (Inr ()), Receive x]"
    have st1: "(protocol_state w1)\<lparr>wtx_delay := 0\<rparr> = ?st\<lparr>wtx_delay := 0\<rparr>"
      using rx(2) by simp
    have ax: "a = (case x of Inl e \<Rightarrow> Failed e | Inr resp \<Rightarrow> validate_response ?st block resp)"
      using rx(2,3) by (cases x) simp_all
    show ?thesis
    proof (cases a)
      case (Return y)
      with run have rw: "r = y" "w' = w1" by simp_all
      from Return ax obtain resp where x: "x = Inr resp"
        and v: "validate_response ?st block resp = Return y"
        by (cases x) simp_all
      have "rejected ?st block x \<Longrightarrow> y = Inl (IFX_ERROR PROTOCOL_TRANSCEIVE INVALID_BLOCK)"
        using validate_response_cases [of ?st block resp] v x by auto
      with rw rx(1) st1 x "1.prems"(2) show ?thesis by simp
    next
      case (Failed status)
      have status: "event_error (Receive x) = Some status"
      proof (cases x)
        case (Inl e)
        with Failed ax show ?thesis by simp
      next
        case (Inr resp)
        with Failed ax have "validate_response ?st block resp = Failed status" by simp
        with validate_response_cases [of ?st block resp]
        have "status = IFX_ERROR PROTOCOL_TRANSCEIVE INVALID_BLOCK" by auto
        with Inr show ?thesis by simp
      qed
      show ?thesis
      proof (cases "Suc k \<le> T1PRIME_BLOCK_TRANSCEIVE_RETRIES")
        case False
        with run Failed have rw: "r = Inl status" "w' = w1" by simp_all
        with rx(1) st1 status "1.prems"(2) show ?thesis by simp
      next
        case True
        then have k1: "Suc k \<le> 2" by (simp add: T1PRIME_BLOCK_TRANSCEIVE_RETRIES_def)
        let ?t' = "next_to_send w1 block to_send"
        have t': "?t' = ?nx"
          using retry_block_cong [OF st1] by (simp add: next_to_send_eq)
        have nn: "next_to_send w1 block ?t' = ?nx"
          using retry_block_cong [OF st1] by (simp add: next_to_send_eq)
        have rec: "block_transceive_loop w1 block ?t' (Suc k) = (r, w')"
          using run Failed True by simp
        have i1: "ifsc (protocol_state w1) = ifsc ?st" using ifsc_cong [OF st1] .
        have s1: "information_size ?t' \<le> ifsc (protocol_state w1)"
          using "1.prems"(4) t' i1 by simp
        have s2: "information_size (next_to_send w1 block ?t') \<le> ifsc (protocol_state w1)"
          using "1.prems"(4) nn i1 by simp
        from "1.IH" [OF a [symmetric] Failed True rec k1 s1 s2]
        obtain evs2 where e2: "trace w' = trace w1 @ evs2" "evs2 \<noteq> []"
          "length (transmitted evs2) \<le> 3 - Suc k"
          "transmitted evs2 = take (length (transmitted evs2))
             (t1prime_block_encode ?t' # replicate (2 - Suc k) (t1prime_block_encode (next_to_send w1 block ?t')))"
          "list_all (rejected (protocol_state w1) block) (receptions evs2)
             \<longrightarrow> (\<exists>e. r = Inl e \<and> event_error (last evs2) = Some e)"
          "(protocol_state w')\<lparr>wtx_delay := 0\<rparr> = (protocol_state w1)\<lparr>wtx_delay := 0\<rparr>"
          by blast
        let ?evs = "?evs1 @ evs2"
        have tr: "trace w' = trace w @ ?evs" using e2(1) rx(1) by simp
        have rep: "t1prime_block_encode ?nx # replicate (2 - Suc k) (t1prime_block_encode ?nx)
                   = replicate (2 - k) (t1prime_block_encode ?nx)"
          using k1 by (cases "2 - k") (simp_all add: Suc_diff_Suc)
        have nn': "next_to_send w1 block ?nx = ?nx"
          using nn t' by simp
        have tx2: "transmitted evs2 = take (length (transmitted evs2))
                     (replicate (2 - k) (t1prime_block_encode ?nx))"
          using e2(4) by (simp only: t' nn' rep)
        have txs: "transmitted ?evs = take (length (transmitted ?evs))
                     (?enc # replicate (2 - k) (t1prime_block_encode ?nx))"
          using tx2 by simp
        have len: "length (transmitted ?evs) \<le> 3 - k" using e2(3) k1 by simp
        have rej: "rejected (protocol_state w1) block = rejected ?st block"
          using rejected_cong [OF st1] by blast
        have concl: "list_all (rejected ?st block) (receptions ?evs)
                     \<longrightarrow> (\<exists>e. r = Inl e \<and> event_error (last ?evs) = Some e)"
          using e2(5) e2(2) rej by simp
        have st': "(protocol_state w')\<lparr>wtx_delay := 0\<rparr> = ?st\<lparr>wtx_delay := 0\<rparr>"
          using e2(6) st1 by simp
        from tr txs len concl st' show ?thesis by blast
      qed
    qed
  qed
qed

lemmas pcb_eval =
  T1PRIME_PCB_I_def T1PRIME_PCB_IS_I_def T1PRIME_PCB_I_GET_NS_def T1PRIME_PCB_I_HAS_MORE_def
  T1PRIME_PCB_R_def T1PRIME_PCB_IS_R_def T1PRIME_PCB_R_GET_NR_def T1PRIME_PCB_R_ACK_def
  T1PRIME_PCB_R_CRC_def T1PRIME_PCB_S_def T1PRIME_PCB_IS_S_def T1PRIME_PCB_S_IS_REQUEST_def
  T1PRIME_PCB_S_GET_TYPE_def T1PRIME_PCB_S_RESYNCH_REQ_def T1PRIME_PCB_S_RESYNCH_RESP_def
  T1PRIME_PCB_S_IFS_REQ_def T1PRIME_PCB_S_IFS_RESP_def T1PRIME_PCB_S_ABORT_REQ_def
  T1PRIME_PCB_S_ABORT_RESP_def T1PRIME_PCB_S_WTX_REQ_def T1PRIME_PCB_S_WTX_RESP_def
  T1PRIME_PCB_S_CIP_REQ_def T1PRIME_PCB_S_CIP_RESP_def T1PRIME_PCB_S_SWR_REQ_def
  T1PRIME_PCB_S_SWR_RESP_def NAD_HD_TO_SE_def

lemmas codec_eval =
  t1prime_validate_crc_def t1prime_block_encode_def block_prologue_def
  size_hi8_def size_lo8_def hi8_def lo8_def u16_be_def size_be_def crc_eval
  BLOCK_PROLOGUE_LENGTH_def BLOCK_EPILOGUE_LENGTH_def

text \<open>
  Evaluation on concrete states.  The rules for the operations on the world are
  instantiated to a world given field by field, so that a call is unfolded once its
  state has been computed.
\<close>

lemma Suc_Suc_0: "Suc (Suc 0) = 2"
  by simp

lemma replicate_numeral_eval: "replicate (numeral k) x = x # replicate (pred_numeral k) x"
  by (simp add: numeral_eq_Suc)

lemmas world_eval =
  Suc_Suc_0 replicate_numeral_eval
  driver_receive_def [of "\<lparr>protocol_state = ps, incoming = inc, transmit_results = trs, polls = pls, i2c_fault = flt, clock_frequency = cf, trace = tr\<rparr>"]
  driver_transmit_def [of "\<lparr>protocol_state = ps, incoming = inc, transmit_results = trs, polls = pls, i2c_fault = flt, clock_frequency = cf, trace = tr\<rparr>"]
  timer_set_def [of "\<lparr>protocol_state = ps, incoming = inc, transmit_results = trs, polls = pls, i2c_fault = flt, clock_frequency = cf, trace = tr\<rparr>"]
  i2c_set_clock_frequency_def [of "\<lparr>protocol_state = ps, incoming = inc, transmit_results = trs, polls = pls, i2c_fault = flt, clock_frequency = cf, trace = tr\<rparr>"]
  t1prime_block_transmit_def [of "\<lparr>protocol_state = ps, incoming = inc, transmit_results = trs, polls = pls, i2c_fault = flt, clock_frequency = cf, trace = tr\<rparr>"]
  poll_nad.simps(1) [of "\<lparr>protocol_state = ps, incoming = inc, transmit_results = trs, polls = pls, i2c_fault = flt, clock_frequency = cf, trace = tr\<rparr>"]
  poll_nad.simps(2) [of _ "\<lparr>protocol_state = ps, incoming = inc, transmit_results = trs, polls = pls, i2c_fault = flt, clock_frequency = cf, trace = tr\<rparr>"]
  receive_epilogue_def [of "\<lparr>protocol_state = ps, incoming = inc, transmit_results = trs, polls = pls, i2c_fault = flt, clock_frequency = cf, trace = tr\<rparr>"]
  receive_frames_def [of "\<lparr>protocol_state = ps, incoming = inc, transmit_results = trs, polls = pls, i2c_fault = flt, clock_frequency = cf, trace = tr\<rparr>"]
  t1prime_block_receive_def [of "\<lparr>protocol_state = ps, incoming = inc, transmit_results = trs, polls = pls, i2c_fault = flt, clock_frequency = cf, trace = tr\<rparr>"]
  wait_wtx_def [of "\<lparr>protocol_state = ps, incoming = inc, transmit_results = trs, polls = pls, i2c_fault = flt, clock_frequency = cf, trace = tr\<rparr>"]
  transceive_attempt_def [of "\<lparr>protocol_state = ps, incoming = inc, transmit_results = trs, polls = pls, i2c_fault = flt, clock_frequency = cf, trace = tr\<rparr>"]
  next_to_send_def [of "\<lparr>protocol_state = ps, incoming = inc, transmit_results = trs, polls = pls, i2c_fault = flt, clock_frequency = cf, trace = tr\<rparr>"]
  block_transceive_loop.simps [of "\<lparr>protocol_state = ps, incoming = inc, transmit_results = trs, polls = pls, i2c_fault = flt, clock_frequency = cf, trace = tr\<rparr>"]
  t1prime_block_transceive_def [of "\<lparr>protocol_state = ps, incoming = inc, transmit_results = trs, polls = pls, i2c_fault = flt, clock_frequency = cf, trace = tr\<rparr>"]
  retry_block_def validate_response_def is_s_request_def
  T1PRIME_BLOCK_TRANSCEIVE_RETRIES_def T1PRIME_MAX_IFS_def T1PRIME_DEFAULT_BWT_def
  T1PRIME_DEFAULT_I2C_MPOT_def T1PRIME_DEFAULT_IFSC_def T1PRIME_DEFAULT_I2C_CLOCK_FREQUENCY_def
  mock_world_def BlockWrapper_frames_def BlockWrapper_block_def initial_protocol_state_def
  Let_def
  for ps inc trs pls flt cf tr

lemmas session_eval =
  reset_counters_def [of "\<lparr>protocol_state = ps, incoming = inc, transmit_results = trs, polls = pls, i2c_fault = flt, clock_frequency = cf, trace = tr\<rparr>"]
  s_resynch_def [of "\<lparr>protocol_state = ps, incoming = inc, transmit_results = trs, polls = pls, i2c_fault = flt, clock_frequency = cf, trace = tr\<rparr>"]
  s_cip_def [of "\<lparr>protocol_state = ps, incoming = inc, transmit_results = trs, polls = pls, i2c_fault = flt, clock_frequency = cf, trace = tr\<rparr>"]
  s_swr_def [of "\<lparr>protocol_state = ps, incoming = inc, transmit_results = trs, polls = pls, i2c_fault = flt, clock_frequency = cf, trace = tr\<rparr>"]
  t1prime_set_ifsd_def [of "\<lparr>protocol_state = ps, incoming = inc, transmit_results = trs, polls = pls, i2c_fault = flt, clock_frequency = cf, trace = tr\<rparr>"]
  t1prime_set_bwt_def [of "\<lparr>protocol_state = ps, incoming = inc, transmit_results = trs, polls = pls, i2c_fault = flt, clock_frequency = cf, trace = tr\<rparr>"]
  t1prime_activate_def [of "\<lparr>protocol_state = ps, incoming = inc, transmit_results = trs, polls = pls, i2c_fault = flt, clock_frequency = cf, trace = tr\<rparr>"]
  toggle_send_counter_def [of "\<lparr>protocol_state = ps, incoming = inc, transmit_results = trs, polls = pls, i2c_fault = flt, clock_frequency = cf, trace = tr\<rparr>"]
  toggle_receive_counter_def [of "\<lparr>protocol_state = ps, incoming = inc, transmit_results = trs, polls = pls, i2c_fault = flt, clock_frequency = cf, trace = tr\<rparr>"]
  dispatch_sent_def [of _ "\<lparr>protocol_state = ps, incoming = inc, transmit_results = trs, polls = pls, i2c_fault = flt, clock_frequency = cf, trace = tr\<rparr>"]
  send_step_def [of _ "\<lparr>protocol_state = ps, incoming = inc, transmit_results = trs, polls = pls, i2c_fault = flt, clock_frequency = cf, trace = tr\<rparr>"]
  after_i_block_def [of "\<lparr>protocol_state = ps, incoming = inc, transmit_results = trs, polls = pls, i2c_fault = flt, clock_frequency = cf, trace = tr\<rparr>"]
  recv_step_def [of "\<lparr>protocol_state = ps, incoming = inc, transmit_results = trs, polls = pls, i2c_fault = flt, clock_frequency = cf, trace = tr\<rparr>"]
  send_loop.simps [of _ "\<lparr>protocol_state = ps, incoming = inc, transmit_results = trs, polls = pls, i2c_fault = flt, clock_frequency = cf, trace = tr\<rparr>"]
  recv_loop.simps [of "\<lparr>protocol_state = ps, incoming = inc, transmit_results = trs, polls = pls, i2c_fault = flt, clock_frequency = cf, trace = tr\<rparr>"]
  t1prime_transceive_def [of "\<lparr>protocol_state = ps, incoming = inc, transmit_results = trs, polls = pls, i2c_fault = flt, clock_frequency = cf, trace = tr\<rparr>"]
  set_ifsc_def [of "\<lparr>protocol_state = ps, incoming = inc, transmit_results = trs, polls = pls, i2c_fault = flt, clock_frequency = cf, trace = tr\<rparr>"]
  t1prime_ifs_encode_def t1prime_ifs_decode_def
  for ps inc trs pls flt cf tr

lemma less_8_cases: "n < 8 \<Longrightarrow> n \<in> {0, 1, 2, 3, 4, 5, 6, 7 :: nat}"
  by (simp, arith)

lemma byte_eq_iff:
  "(p::byte) = q \<longleftrightarrow>
     (bit p 0 = bit q 0) \<and> (bit p 1 = bit q 1) \<and> (bit p 2 = bit q 2) \<and> (bit p 3 = bit q 3) \<and>
     (bit p 4 = bit q 4) \<and> (bit p 5 = bit q 5) \<and> (bit p 6 = bit q 6) \<and> (bit p 7 = bit q 7)"
proof
  assume "p = q"
  then show "(bit p 0 = bit q 0) \<and> (bit p 1 = bit q 1) \<and> (bit p 2 = bit q 2) \<and> (bit p 3 = bit q 3) \<and>
     (bit p 4 = bit q 4) \<and> (bit p 5 = bit q 5) \<and> (bit p 6 = bit q 6) \<and> (bit p 7 = bit q 7)"
    by simp
next
  assume h: "(bit p 0 = bit q 0) \<and> (bit p 1 = bit q 1) \<and> (bit p 2 = bit q 2) \<and> (bit p 3 = bit q 3) \<and>
     (bit p 4 = bit q 4) \<and> (bit p 5 = bit q 5) \<and> (bit p 6 = bit q 6) \<and> (bit p 7 = bit q 7)"
  show "p = q"
  proof (rule bit_word_eqI)
    fix n assume "n < LENGTH(8)"
    then have "n < 8" by simp
    from less_8_cases [OF this] h show "bit p n = bit q n" by auto
  qed
qed

lemma s_response_pcb:
  assumes "T1PRIME_PCB_IS_S p" and "\<not> T1PRIME_PCB_S_IS_REQUEST p"
    and "T1PRIME_PCB_S_GET_TYPE q = T1PRIME_PCB_S_GET_TYPE p"
    and "T1PRIME_PCB_IS_S q" and "T1PRIME_PCB_S_IS_REQUEST q"
  shows "p = q OR 0x20"
  using assms
  unfolding T1PRIME_PCB_IS_S_def T1PRIME_PCB_S_IS_REQUEST_def T1PRIME_PCB_S_GET_TYPE_def
  by (simp add: byte_eq_iff bit_simps) 

lemma resent_eq: "next_to_send w b b = resent (protocol_state w) b"
  by (simp add: next_to_send_eq resent_def retry_block_def T1PRIME_PCB_R_CRC_def T1PRIME_PCB_R_def)

lemma new_events_append: "trace w' = trace w @ evs \<Longrightarrow> new_events w w' = evs"
  by (simp add: new_events_def)

text \<open>
  Claim C4.  A call of \<open>t1prime_block_transceive\<close> for a block \<open>b\<close> only appends
  events to the trace.  It transmits at most 3 times: first \<open>b\<close>, then on each retry
  the block \<open>resent\<close> names, which is \<open>b\<close> itself when \<open>b\<close> is a request S-block and
  otherwise the R-block signalling a CRC error with N(R) the receive counter and no
  information.  When every reception of the call failed or was inconsistent with \<open>b\<close>,
  the call returns an error, and it is the error of its last event; a call that could
  not transmit at all because \<open>b\<close> exceeds the IFSC returns \<open>ILLEGAL_ARGUMENT\<close>.
\<close>

theorem block_transceive_retry_discipline:
  assumes "t1prime_block_transceive w b = (r, w')"
  shows "trace w' = trace w @ new_events w w' \<and>
         length (transmitted (new_events w w')) \<le> 3 \<and>
         transmitted (new_events w w') =
           take (length (transmitted (new_events w w')))
             (t1prime_block_encode b
                # replicate 2 (t1prime_block_encode (resent (protocol_state w) b))) \<and>
         (list_all (rejected (protocol_state w) b) (receptions (new_events w w')) \<longrightarrow>
            (\<exists>e. r = Inl e \<and>
                 (if new_events w w' = [] then e = IFX_ERROR PROTOCOL_TRANSMIT ILLEGAL_ARGUMENT
                  else event_error (last (new_events w w')) = Some e)))"
proof (cases "information_size b \<le> ifsc (protocol_state w)")
  case True
  have run: "block_transceive_loop w b b 0 = (r, w')"
    using assms by (simp add: t1prime_block_transceive_def)
  have nx: "information_size (next_to_send w b b) \<le> ifsc (protocol_state w)"
    using True by (simp add: next_to_send_eq retry_block_def)
  from loop_discipline [OF run _ True nx]
  obtain evs where e: "trace w' = trace w @ evs" "evs \<noteq> []"
    "length (transmitted evs) \<le> 3"
    "transmitted evs = take (length (transmitted evs))
       (t1prime_block_encode b # replicate 2 (t1prime_block_encode (next_to_send w b b)))"
    "list_all (rejected (protocol_state w) b) (receptions evs)
       \<longrightarrow> (\<exists>e. r = Inl e \<and> event_error (last evs) = Some e)"
    by auto
  have ne: "new_events w w' = evs" using e(1) by (rule new_events_append)
  show ?thesis
    unfolding ne using e by (simp add: resent_eq)
next
  case False
  then have "transceive_attempt w b b
               = (Return (Inl (IFX_ERROR PROTOCOL_TRANSMIT ILLEGAL_ARGUMENT)), w)"
    by (simp add: transceive_attempt_def t1prime_block_transmit_def)
  with assms have "r = Inl (IFX_ERROR PROTOCOL_TRANSMIT ILLEGAL_ARGUMENT)" "w' = w"
    by (simp_all add: t1prime_block_transceive_def block_transceive_loop.simps [of w])
  then show ?thesis by (simp add: new_events_def)
qed

theorem block_transceive_retry_discipline_witness:
  "fst (t1prime_block_transceive
          (mock_world (BlockWrapper_frames 0xE0 [] @ BlockWrapper_frames 0xE0 []
                         @ BlockWrapper_frames 0xE0 []))
          \<lparr>nad = 0x21, pcb = 0xC1, information_size = 1, information = [0x01]\<rparr>)
     = Inl (IFX_ERROR PROTOCOL_TRANSCEIVE INVALID_BLOCK) \<and>
   transmitted (trace (snd (t1prime_block_transceive
          (mock_world (BlockWrapper_frames 0xE0 [] @ BlockWrapper_frames 0xE0 []
                         @ BlockWrapper_frames 0xE0 []))
          \<lparr>nad = 0x21, pcb = 0xC1, information_size = 1, information = [0x01]\<rparr>)))
     = replicate 3 (BlockWrapper_block 0xC1 [0x01]) \<and>
   fst (t1prime_block_transceive
          (mock_world ([Inr [0x12], Inr [0x00, 0x00, 0x02], Inr [0xF1, 0xF2], Inr [0x00, 0x00]]))
          \<lparr>nad = 0x21, pcb = 0x00, information_size = 2, information = [0x01, 0x02]\<rparr>)
     = Inl (IFX_ERROR PROTOCOL_RECEIVE TOO_LITTLE_DATA) \<and>
   transmitted (trace (snd (t1prime_block_transceive
          (mock_world ([Inr [0x12], Inr [0x00, 0x00, 0x02], Inr [0xF1, 0xF2], Inr [0x00, 0x00]]))
          \<lparr>nad = 0x21, pcb = 0x00, information_size = 2, information = [0x01, 0x02]\<rparr>)))
     = [BlockWrapper_block 0x00 [0x01, 0x02], BlockWrapper_block 0x81 [],
        BlockWrapper_block 0x81 []]"
proof -
  let ?w1 = "mock_world (BlockWrapper_frames 0xE0 [] @ BlockWrapper_frames 0xE0 []
                         @ BlockWrapper_frames 0xE0 [])"
  let ?b1 = "\<lparr>nad = 0x21, pcb = 0xC1, information_size = 1, information = [0x01 :: byte]\<rparr>"
  let ?w2 = "mock_world ([Inr [0x12], Inr [0x00, 0x00, 0x02], Inr [0xF1, 0xF2], Inr [0x00, 0x00]])"
  let ?b2 = "\<lparr>nad = 0x21, pcb = 0x00, information_size = 2, information = [0x01, 0x02 :: byte]\<rparr>"
  define R1 where "R1 = fst (t1prime_block_transceive ?w1 ?b1)"
  define W1 where "W1 = snd (t1prime_block_transceive ?w1 ?b1)"
  define R2 where "R2 = fst (t1prime_block_transceive ?w2 ?b2)"
  define W2 where "W2 = snd (t1prime_block_transceive ?w2 ?b2)"
  have r1: "t1prime_block_transceive ?w1 ?b1 = (R1, W1)" by (simp add: R1_def W1_def)
  have r2: "t1prime_block_transceive ?w2 ?b2 = (R2, W2)" by (simp add: R2_def W2_def)
  have t1: "trace W1
      = [Transmit (BlockWrapper_block 0xC1 [0x01]) (Inr ()),
         Receive (Inr \<lparr>nad = 0x12, pcb = 0xE0, information_size = 0, information = []\<rparr>),
         Transmit (BlockWrapper_block 0xC1 [0x01]) (Inr ()),
         Receive (Inr \<lparr>nad = 0x12, pcb = 0xE0, information_size = 0, information = []\<rparr>),
         Transmit (BlockWrapper_block 0xC1 [0x01]) (Inr ()),
         Receive (Inr \<lparr>nad = 0x12, pcb = 0xE0, information_size = 0, information = []\<rparr>)]"
    unfolding W1_def by (simp add: world_eval codec_eval pcb_eval cong: let_weak_cong)
  have t2: "trace W2
      = [Transmit (BlockWrapper_block 0x00 [0x01, 0x02]) (Inr ()),
         Receive (Inl (IFX_ERROR T1PRIME_BLOCK_DECODE INVALID_CRC)),
         Transmit (BlockWrapper_block 0x81 []) (Inr ()),
         Receive (Inl (IFX_ERROR PROTOCOL_RECEIVE TOO_LITTLE_DATA)),
         Transmit (BlockWrapper_block 0x81 []) (Inr ()),
         Receive (Inl (IFX_ERROR PROTOCOL_RECEIVE TOO_LITTLE_DATA))]"
    unfolding W2_def by (simp add: world_eval codec_eval pcb_eval cong: let_weak_cong)
  have n1: "new_events ?w1 W1 = trace W1" and n2: "new_events ?w2 W2 = trace W2"
    by (simp_all add: new_events_def mock_world_def)
  have h1: "list_all (rejected (protocol_state ?w1) ?b1) (receptions (new_events ?w1 W1))"
    unfolding n1 t1
    by (simp add: validate_response_def is_s_request_def pcb_eval)
  have h2: "list_all (rejected (protocol_state ?w2) ?b2) (receptions (new_events ?w2 W2))"
    unfolding n2 t2 by simp
  from block_transceive_retry_discipline [OF r1] h1
  have "\<exists>e. R1 = Inl e \<and>
          (if new_events ?w1 W1 = [] then e = IFX_ERROR PROTOCOL_TRANSMIT ILLEGAL_ARGUMENT
           else event_error (last (new_events ?w1 W1)) = Some e)"
    by blast
  then have c1: "R1 = Inl (IFX_ERROR PROTOCOL_TRANSCEIVE INVALID_BLOCK)"
    unfolding n1 t1 by auto
  from block_transceive_retry_discipline [OF r2] h2
  have "\<exists>e. R2 = Inl e \<and>
          (if new_events ?w2 W2 = [] then e = IFX_ERROR PROTOCOL_TRANSMIT ILLEGAL_ARGUMENT
           else event_error (last (new_events ?w2 W2)) = Some e)"
    by blast
  then have c2: "R2 = Inl (IFX_ERROR PROTOCOL_RECEIVE TOO_LITTLE_DATA)"
    unfolding n2 t2 by auto
  have x1: "transmitted (trace W1) = replicate 3 (BlockWrapper_block 0xC1 [0x01])"
    unfolding t1 by (simp add: numeral_3_eq_3)
  have x2: "transmitted (trace W2)
      = [BlockWrapper_block 0x00 [0x01, 0x02], BlockWrapper_block 0x81 [],
         BlockWrapper_block 0x81 []]"
    unfolding t2 by simp
  from c1 c2 x1 x2 show ?thesis
    unfolding R1_def W1_def R2_def W2_def by blast
qed

section \<open>What a block exchange leaves behind\<close>

lemma validate_return:
  "validate_response st b resp = Return (Inr y) \<Longrightarrow> y = resp"
  by (simp add: validate_response_def split: if_splits)

lemma wtx_twice:
  "st1 = st\<lparr>wtx_delay := 0\<rparr> \<Longrightarrow> st2 = st1\<lparr>wtx_delay := 0\<rparr> \<Longrightarrow> st2 = st\<lparr>wtx_delay := 0\<rparr>"
  by simp

lemma loop_result:
  assumes "block_transceive_loop w b t k = (r, w')"
  shows "(protocol_state w')\<lparr>wtx_delay := 0\<rparr> = (protocol_state w)\<lparr>wtx_delay := 0\<rparr>
       \<and> (\<exists>evs. trace w' = trace w @ evs)
       \<and> (\<forall>resp. r = Inr resp \<longrightarrow>
             validate_response (protocol_state w) b resp = Return (Inr resp)
           \<and> protocol_state w' = (protocol_state w)\<lparr>wtx_delay := 0\<rparr>
           \<and> (\<exists>evs. trace w' = trace w @ Transmit (t1prime_block_encode t) (Inr ()) # evs
                                   @ [Receive (Inr resp)]))"
  using assms
proof (induction w b t k rule: block_transceive_loop.induct)
  case (1 w block to_send k)
  let ?st = "protocol_state w"
  let ?enc = "t1prime_block_encode to_send"
  obtain a w1 where a: "transceive_attempt w block to_send = (a, w1)"
    by (cases "transceive_attempt w block to_send")
  have run: "(case a of Return x \<Rightarrow> (x, w1)
             | Failed status \<Rightarrow>
                 if Suc k \<le> T1PRIME_BLOCK_TRANSCEIVE_RETRIES
                 then block_transceive_loop w1 block (next_to_send w1 block to_send) (Suc k)
                 else (Inl status, w1)) = (r, w')"
    using "1.prems"(1) a by (simp add: block_transceive_loop.simps [of w])
  from attempt_cases [OF a]
  consider
    (big) "w1 = w" "a = Return (Inl (IFX_ERROR PROTOCOL_TRANSMIT ILLEGAL_ARGUMENT))"
  | (tx) e where "trace w1 = trace w @ [Transmit ?enc (Inl e)]" "protocol_state w1 = ?st"
      "a = Return (Inl e)"
  | (rx) x where "trace w1 = trace w @ [Transmit ?enc (Inr ()), Receive x]"
      "protocol_state w1 = ?st\<lparr>wtx_delay := 0\<rparr>"
      "a = (case x of Inl e \<Rightarrow> Failed e | Inr resp \<Rightarrow> validate_response (protocol_state w1) block resp)"
    by fastforce
  then show ?case
  proof cases
    case big
    with run have "r = Inl (IFX_ERROR PROTOCOL_TRANSMIT ILLEGAL_ARGUMENT)" "w' = w" by auto
    then show ?thesis by simp
  next
    case tx
    with run have "r = Inl e" "w' = w1" by simp_all
    with tx show ?thesis by simp
  next
    case rx
    have ax: "a = (case x of Inl e \<Rightarrow> Failed e | Inr resp \<Rightarrow> validate_response ?st block resp)"
      using rx(2,3) by (cases x) simp_all
    show ?thesis
    proof (cases a)
      case (Return y)
      with run have rw: "r = y" "w' = w1" by simp_all
      from Return ax obtain resp where x: "x = Inr resp"
        and v: "validate_response ?st block resp = Return y"
        by (cases x) simp_all
      have "\<And>z. y = Inr z \<Longrightarrow> z = resp" using v validate_return by blast
      with rw rx(1,2) x v show ?thesis by auto
    next
      case (Failed status)
      show ?thesis
      proof (cases "Suc k \<le> T1PRIME_BLOCK_TRANSCEIVE_RETRIES")
        case False
        with run Failed have rw: "r = Inl status" "w' = w1" by simp_all
        with rx(1,2) show ?thesis by simp
      next
        case True
        let ?t' = "next_to_send w1 block to_send"
        have rec: "block_transceive_loop w1 block ?t' (Suc k) = (r, w')"
          using run Failed True by simp
        note ih = "1.IH" [OF a [symmetric] Failed True rec]
        from ih have s1: "(protocol_state w')\<lparr>wtx_delay := 0\<rparr> = (protocol_state w1)\<lparr>wtx_delay := 0\<rparr>"
          by blast
        from ih obtain evs2 where e2: "trace w' = trace w1 @ evs2" by blast
        have c1: "(protocol_state w')\<lparr>wtx_delay := 0\<rparr> = ?st\<lparr>wtx_delay := 0\<rparr>"
          using s1 rx(2) by simp
        have c2: "\<exists>evs. trace w' = trace w @ evs" using e2 rx(1) by simp
        have c3: "validate_response ?st block resp = Return (Inr resp)
           \<and> protocol_state w' = ?st\<lparr>wtx_delay := 0\<rparr>
           \<and> (\<exists>evs. trace w' = trace w @ Transmit ?enc (Inr ()) # evs @ [Receive (Inr resp)])"
          if r: "r = Inr resp" for resp
        proof -
          from ih r have v: "validate_response (protocol_state w1) block resp = Return (Inr resp)"
            and p: "protocol_state w' = (protocol_state w1)\<lparr>wtx_delay := 0\<rparr>"
            and t: "\<exists>evs. trace w' = trace w1 @ Transmit (t1prime_block_encode ?t') (Inr ()) # evs
                                   @ [Receive (Inr resp)]"
            by blast+
          from t obtain evs where "trace w' = trace w1 @ Transmit (t1prime_block_encode ?t') (Inr ()) # evs
                                   @ [Receive (Inr resp)]" by blast
          then have "trace w' = trace w @ Transmit ?enc (Inr ())
                       # (Receive x # Transmit (t1prime_block_encode ?t') (Inr ()) # evs)
                       @ [Receive (Inr resp)]"
            using rx(1) by simp
          then have t': "\<exists>evs. trace w' = trace w @ Transmit ?enc (Inr ()) # evs @ [Receive (Inr resp)]"
            by blast
          from v rx(2) have v': "validate_response ?st block resp = Return (Inr resp)" by simp
          from p rx(2) have p': "protocol_state w' = ?st\<lparr>wtx_delay := 0\<rparr>" by simp
          from v' p' t' show ?thesis by blast
        qed
        from c1 c2 c3 show ?thesis by blast
      qed
    qed
  qed
qed

lemma block_transceive_result:
  assumes "t1prime_block_transceive w b = (r, w')"
  shows "(protocol_state w')\<lparr>wtx_delay := 0\<rparr> = (protocol_state w)\<lparr>wtx_delay := 0\<rparr>"
    and "\<exists>evs. trace w' = trace w @ evs"
    and "r = Inr resp \<Longrightarrow> validate_response (protocol_state w) b resp = Return (Inr resp)"
    and "r = Inr resp \<Longrightarrow> protocol_state w' = (protocol_state w)\<lparr>wtx_delay := 0\<rparr>"
    and "r = Inr resp \<Longrightarrow> \<exists>evs. trace w' = trace w @ Transmit (t1prime_block_encode b) (Inr ()) # evs
                                   @ [Receive (Inr resp)]"
  using loop_result [of w b b 0 r w'] assms
  by (simp_all add: t1prime_block_transceive_def)

lemma wtx_counters:
  "st'\<lparr>wtx_delay := 0\<rparr> = st\<lparr>wtx_delay := 0\<rparr> \<Longrightarrow>
     send_counter st' = send_counter st \<and> receive_counter st' = receive_counter st
     \<and> ifsc st' = ifsc st \<and> bwt st' = bwt st \<and> mpot st' = mpot st"
  by (metis T1PrimeProtocolState.select_convs(1-5) T1PrimeProtocolState.surjective
      T1PrimeProtocolState.update_convs(6))

section \<open>Information field size\<close>

lemma s_request_response_pcb:
  assumes "is_s_request b" and "validate_response st b resp = Return (Inr resp)"
  shows "pcb resp = pcb b OR 0x20"
proof -
  from assms have "T1PRIME_PCB_IS_S (pcb resp)" "\<not> T1PRIME_PCB_S_IS_REQUEST (pcb resp)"
    "T1PRIME_PCB_S_GET_TYPE (pcb b) = T1PRIME_PCB_S_GET_TYPE (pcb resp)"
    by (simp_all add: validate_response_def split: if_splits)
  moreover from assms(1) have "T1PRIME_PCB_IS_S (pcb b)" "T1PRIME_PCB_S_IS_REQUEST (pcb b)"
    by (simp_all add: is_s_request_def)
  ultimately show ?thesis by (rule s_response_pcb)
qed

lemma ifs_request_response:
  assumes "t1prime_block_transceive w
             \<lparr>nad = 0x21, pcb = T1PRIME_PCB_S_IFS_REQ, information_size = k, information = buffer\<rparr>
           = (Inr resp, w')"
  shows "pcb resp = T1PRIME_PCB_S_IFS_RESP"
proof -
  let ?b = "\<lparr>nad = 0x21, pcb = T1PRIME_PCB_S_IFS_REQ, information_size = k, information = buffer\<rparr>"
  have s: "is_s_request ?b"
    by (simp add: is_s_request_def pcb_eval)
  from block_transceive_result(3) [OF assms refl]
  have "validate_response (protocol_state w) ?b resp = Return (Inr resp)" .
  from s_request_response_pcb [OF s this] show ?thesis
    by (simp add: pcb_eval)
qed

text \<open>
  Claim C7.  The claim reads: \<open>t1prime_ifs_encode\<close> writes the three bytes 0x00, MSB, LSB
  for a value above 0xFE, and \<open>t1prime_set_ifsd\<close> succeeds only when the information of
  the S(IFS response) equals that of the request.  The encoding of 0x0102 has two bytes,
  and a request for 5, sent as the byte 0x05, succeeds on the response information
  0x00 0x05.
\<close>

theorem ifs_three_bytes_counterexample:
  "t1prime_ifs_encode 0x0102 = Inr [0x01, 0x02] \<and>
   transmitted (trace (snd (t1prime_set_ifsd (mock_world (BlockWrapper_frames 0xE1 [0x00, 0x05])) 5)))
     = [BlockWrapper_block 0xC1 [0x05]] \<and>
   fst (t1prime_set_ifsd (mock_world (BlockWrapper_frames 0xE1 [0x00, 0x05])) 5) = Inr ()"
  by (simp add: session_eval world_eval codec_eval pcb_eval cong: let_weak_cong)

lemma ifs_decode_cases:
  "t1prime_ifs_decode data k =
     (if k = 1 then Inr (unat (data ! 0))
      else if k = 2 \<and> 256 * unat (data ! 0) + unat (data ! 1) \<le> 0xFF9
      then Inr (256 * unat (data ! 0) + unat (data ! 1))
      else Inl (IFX_ERROR T1PRIME_IFS_DECODE ILLEGAL_ARGUMENT))"
proof -
  have "unat (data ! 0) < 2 ^ 8" using unsigned_less [of "data ! 0"] by simp
  then have b: "unat (data ! 0) \<le> 0xFF9" by simp
  show ?thesis
    using b by (auto simp add: t1prime_ifs_decode_def T1PRIME_MAX_IFS_def Let_def size_be_eq)
qed

lemma set_ifsd_exchange:
  assumes enc: "t1prime_ifs_encode n = Inr buffer"
    and run: "t1prime_block_transceive w
        \<lparr>nad = 0x21, pcb = T1PRIME_PCB_S_IFS_REQ, information_size = length buffer,
         information = buffer\<rparr> = (r, w')"
  shows "t1prime_set_ifsd w n =
        (case r of
           Inl e \<Rightarrow> Inl e
         | Inr resp \<Rightarrow>
             if t1prime_ifs_decode (information resp) (information_size resp) = Inr n
             then Inr ()
             else Inl (IFX_ERROR PROTOCOL_RECEIVE INVALID_BLOCK), w')"
proof (cases r)
  case (Inl e)
  with enc run show ?thesis by (simp add: t1prime_set_ifsd_def)
next
  case (Inr resp)
  with run have "pcb resp = T1PRIME_PCB_S_IFS_RESP"
    using ifs_request_response by blast
  with enc run Inr show ?thesis
    by (cases "t1prime_ifs_decode (information resp) (information_size resp)")
      (auto simp add: t1prime_set_ifsd_def)
qed

text \<open>
  Claim C7, amended.  \<open>t1prime_ifs_encode n\<close> fails with \<open>ILLEGAL_ARGUMENT\<close> iff \<open>n = 0\<close>
  or \<open>n > 0xFF9\<close>; for \<open>n\<close> from 1 to 0xFE it gives the single byte \<open>n\<close>; for \<open>n\<close> from
  0xFF to 0xFF9 it gives the two bytes MSB, LSB.  \<open>t1prime_ifs_decode\<close> reads one byte
  as its value and two bytes as the big-endian value when that is at most 0xFF9, and
  fails on every other length and on a larger value.  \<open>t1prime_set_ifsd\<close> returns the
  error of the encoding or of the block exchange when there is one; when the exchange
  delivers a block, it succeeds iff the information of that block is one byte equal to
  the requested value or two bytes whose big-endian value is the requested value, and
  fails with \<open>INVALID_BLOCK\<close> otherwise.
\<close>

theorem ifs_encode_set_ifsd:
  "t1prime_ifs_encode n =
     (if n = 0 \<or> n > 0xFF9 then Inl (IFX_ERROR PROTOCOL_SETPROPERTY ILLEGAL_ARGUMENT)
      else if n \<le> 0xFE then Inr [word_of_nat n]
      else Inr [word_of_nat (n div 256), word_of_nat (n mod 256)]) \<and>
   t1prime_ifs_decode data k =
     (if k = 1 then Inr (unat (data ! 0))
      else if k = 2 \<and> 256 * unat (data ! 0) + unat (data ! 1) \<le> 0xFF9
      then Inr (256 * unat (data ! 0) + unat (data ! 1))
      else Inl (IFX_ERROR T1PRIME_IFS_DECODE ILLEGAL_ARGUMENT)) \<and>
   (\<forall>e. t1prime_ifs_encode n = Inl e \<longrightarrow> t1prime_set_ifsd w n = (Inl e, w)) \<and>
   (\<forall>buffer r w'.
      t1prime_ifs_encode n = Inr buffer \<longrightarrow>
      t1prime_block_transceive w
        \<lparr>nad = 0x21, pcb = T1PRIME_PCB_S_IFS_REQ, information_size = length buffer,
         information = buffer\<rparr> = (r, w') \<longrightarrow>
      t1prime_set_ifsd w n =
        (case r of
           Inl e \<Rightarrow> Inl e
         | Inr resp \<Rightarrow>
             if (information_size resp = 1 \<and> unat (information resp ! 0) = n) \<or>
                (information_size resp = 2 \<and>
                 256 * unat (information resp ! 0) + unat (information resp ! 1) = n)
             then Inr ()
             else Inl (IFX_ERROR PROTOCOL_RECEIVE INVALID_BLOCK), w'))"
proof -
  have p1: "t1prime_ifs_encode n =
     (if n = 0 \<or> n > 0xFF9 then Inl (IFX_ERROR PROTOCOL_SETPROPERTY ILLEGAL_ARGUMENT)
      else if n \<le> 0xFE then Inr [word_of_nat n]
      else Inr [word_of_nat (n div 256), word_of_nat (n mod 256)])"
    by (rule ifs_encode_cases)
  have p2: "t1prime_ifs_decode data k =
     (if k = 1 then Inr (unat (data ! 0))
      else if k = 2 \<and> 256 * unat (data ! 0) + unat (data ! 1) \<le> 0xFF9
      then Inr (256 * unat (data ! 0) + unat (data ! 1))
      else Inl (IFX_ERROR T1PRIME_IFS_DECODE ILLEGAL_ARGUMENT))"
    by (rule ifs_decode_cases)
  have p3: "t1prime_set_ifsd w n = (Inl e, w)" if "t1prime_ifs_encode n = Inl e" for e
    using that by (simp add: t1prime_set_ifsd_def)
  have p4: "t1prime_set_ifsd w n =
        (case r of
           Inl e \<Rightarrow> Inl e
         | Inr resp \<Rightarrow>
             if (information_size resp = 1 \<and> unat (information resp ! 0) = n) \<or>
                (information_size resp = 2 \<and>
                 256 * unat (information resp ! 0) + unat (information resp ! 1) = n)
             then Inr ()
             else Inl (IFX_ERROR PROTOCOL_RECEIVE INVALID_BLOCK), w')"
    if enc: "t1prime_ifs_encode n = Inr buffer"
      and run: "t1prime_block_transceive w
        \<lparr>nad = 0x21, pcb = T1PRIME_PCB_S_IFS_REQ, information_size = length buffer,
         information = buffer\<rparr> = (r, w')"
    for buffer r w'
  proof -
    from enc have n: "n \<le> 0xFF9"
      by (simp add: ifs_encode_cases split: if_splits)
    have d: "t1prime_ifs_decode (information resp) (information_size resp) = Inr n
         \<longleftrightarrow> (information_size resp = 1 \<and> unat (information resp ! 0) = n) \<or>
             (information_size resp = 2 \<and>
              256 * unat (information resp ! 0) + unat (information resp ! 1) = n)" for resp
      using n by (auto simp add: ifs_decode_cases)
    from set_ifsd_exchange [OF enc run] show ?thesis
      by (simp only: d)
  qed
  from p1 p2 p3 p4 show ?thesis by blast
qed

theorem ifs_encode_set_ifsd_witness:
  "t1prime_ifs_encode 0x0102 = Inr [0x01, 0x02] \<and>
   t1prime_ifs_encode 5 = Inr [0x05] \<and>
   t1prime_ifs_decode [0x05] 1 = Inr 5 \<and>
   t1prime_ifs_decode [0x01, 0x02] 2 = Inr 0x0102 \<and>
   t1prime_ifs_decode [0x10, 0x00] 2 = Inl (IFX_ERROR T1PRIME_IFS_DECODE ILLEGAL_ARGUMENT) \<and>
   t1prime_ifs_decode [0x00, 0x01, 0x02] 3 = Inl (IFX_ERROR T1PRIME_IFS_DECODE ILLEGAL_ARGUMENT) \<and>
   fst (t1prime_set_ifsd (mock_world (BlockWrapper_frames 0xE1 [0x01, 0x02])) 0x0102) = Inr () \<and>
   fst (t1prime_set_ifsd (mock_world (BlockWrapper_frames 0xE1 [0x05])) 5) = Inr () \<and>
   fst (t1prime_set_ifsd (mock_world (BlockWrapper_frames 0xE1 [0x01, 0x03])) 0x0102)
     = Inl (IFX_ERROR PROTOCOL_RECEIVE INVALID_BLOCK) \<and>
   fst (t1prime_set_ifsd (mock_world (BlockWrapper_frames 0xE1 [0x00, 0x01, 0x02])) 0x0102)
     = Inl (IFX_ERROR PROTOCOL_RECEIVE INVALID_BLOCK) \<and>
   t1prime_set_ifsd (mock_world []) 0 = (Inl (IFX_ERROR PROTOCOL_SETPROPERTY ILLEGAL_ARGUMENT), mock_world [])"
proof -
  let ?w = "mock_world (BlockWrapper_frames 0xE1 [0x01, 0x02])"
  let ?v = "mock_world (BlockWrapper_frames 0xE1 [0x01, 0x03])"
  let ?u = "mock_world (BlockWrapper_frames 0xE1 [0x05])"
  let ?t = "mock_world (BlockWrapper_frames 0xE1 [0x00, 0x01, 0x02])"
  let ?b = "\<lparr>nad = 0x21, pcb = T1PRIME_PCB_S_IFS_REQ, information_size = length [0x01, 0x02 :: byte],
           information = [0x01, 0x02 :: byte]\<rparr>"
  let ?c = "\<lparr>nad = 0x21, pcb = T1PRIME_PCB_S_IFS_REQ, information_size = length [0x05 :: byte],
           information = [0x05 :: byte]\<rparr>"
  define W where "W = snd (t1prime_block_transceive ?w ?b)"
  define V where "V = snd (t1prime_block_transceive ?v ?b)"
  define U where "U = snd (t1prime_block_transceive ?u ?c)"
  define T where "T = snd (t1prime_block_transceive ?t ?b)"
  note zi = ifs_encode_set_ifsd
  have enc: "t1prime_ifs_encode 0x0102 = Inr [0x01, 0x02]"
    using zi [of "0x0102"] by simp
  have enc5: "t1prime_ifs_encode 5 = Inr [0x05]"
    using zi [of 5] by simp
  have enc0: "t1prime_ifs_encode 0 = Inl (IFX_ERROR PROTOCOL_SETPROPERTY ILLEGAL_ARGUMENT)"
    using zi [of 0] by simp
  have d1: "t1prime_ifs_decode [0x05] 1 = Inr 5"
    using zi [where data = "[0x05]" and k = 1] by simp
  have d2: "t1prime_ifs_decode [0x01, 0x02] 2 = Inr 0x0102"
    using zi [where data = "[0x01, 0x02]" and k = 2] by simp
  have d3: "t1prime_ifs_decode [0x10, 0x00] 2 = Inl (IFX_ERROR T1PRIME_IFS_DECODE ILLEGAL_ARGUMENT)"
    using zi [where data = "[0x10, 0x00]" and k = 2] by simp
  have d4: "t1prime_ifs_decode [0x00, 0x01, 0x02] 3
              = Inl (IFX_ERROR T1PRIME_IFS_DECODE ILLEGAL_ARGUMENT)"
    using zi [where data = "[0x00, 0x01, 0x02]" and k = 3] by simp
  have f1: "fst (t1prime_block_transceive ?w ?b)
     = Inr \<lparr>nad = 0x12, pcb = 0xE1, information_size = 2, information = [0x01, 0x02]\<rparr>"
    by (simp add: world_eval codec_eval pcb_eval cong: let_weak_cong)
  have f2: "fst (t1prime_block_transceive ?v ?b)
     = Inr \<lparr>nad = 0x12, pcb = 0xE1, information_size = 2, information = [0x01, 0x03]\<rparr>"
    by (simp add: world_eval codec_eval pcb_eval cong: let_weak_cong)
  have f3: "fst (t1prime_block_transceive ?u ?c)
     = Inr \<lparr>nad = 0x12, pcb = 0xE1, information_size = 1, information = [0x05]\<rparr>"
    by (simp add: world_eval codec_eval pcb_eval cong: let_weak_cong)
  have f4: "fst (t1prime_block_transceive ?t ?b)
     = Inr \<lparr>nad = 0x12, pcb = 0xE1, information_size = 3, information = [0x00, 0x01, 0x02]\<rparr>"
    by (simp add: world_eval codec_eval pcb_eval cong: let_weak_cong)
  have r1: "t1prime_block_transceive ?w ?b
     = (Inr \<lparr>nad = 0x12, pcb = 0xE1, information_size = 2, information = [0x01, 0x02]\<rparr>, W)"
    using f1 by (simp add: W_def prod_eq_iff)
  have r2: "t1prime_block_transceive ?v ?b
     = (Inr \<lparr>nad = 0x12, pcb = 0xE1, information_size = 2, information = [0x01, 0x03]\<rparr>, V)"
    using f2 by (simp add: V_def prod_eq_iff)
  have r3: "t1prime_block_transceive ?u ?c
     = (Inr \<lparr>nad = 0x12, pcb = 0xE1, information_size = 1, information = [0x05]\<rparr>, U)"
    using f3 by (simp add: U_def prod_eq_iff)
  have r4: "t1prime_block_transceive ?t ?b
     = (Inr \<lparr>nad = 0x12, pcb = 0xE1, information_size = 3, information = [0x00, 0x01, 0x02]\<rparr>, T)"
    using f4 by (simp add: T_def prod_eq_iff)
  from zi [of "0x0102" _ _ ?w] enc r1
  have s1: "t1prime_set_ifsd ?w 0x0102 = (Inr (), W)" by simp
  from zi [of "0x0102" _ _ ?v] enc r2
  have s2: "t1prime_set_ifsd ?v 0x0102 = (Inl (IFX_ERROR PROTOCOL_RECEIVE INVALID_BLOCK), V)" by simp
  from zi [of 5 _ _ ?u] enc5 r3
  have s3: "t1prime_set_ifsd ?u 5 = (Inr (), U)" by simp
  from zi [of "0x0102" _ _ ?t] enc r4
  have s4: "t1prime_set_ifsd ?t 0x0102 = (Inl (IFX_ERROR PROTOCOL_RECEIVE INVALID_BLOCK), T)" by simp
  from zi [of 0 _ _ "mock_world []"] enc0
  have s5: "t1prime_set_ifsd (mock_world []) 0
     = (Inl (IFX_ERROR PROTOCOL_SETPROPERTY ILLEGAL_ARGUMENT), mock_world [])" by simp
  from enc enc5 d1 d2 d3 d4 s1 s2 s3 s4 s5 show ?thesis by simp
qed

section \<open>The response chain\<close>

lemma dispatch_break:
  "dispatch_sent data w s rb = (SendBreak rb', w1) \<Longrightarrow>
     rb' = rb \<and> T1PRIME_PCB_IS_I (pcb rb) \<and> w1 = toggle_send_counter w"
  by (simp add: dispatch_sent_def Let_def split: if_splits sum.splits)

lemma send_break:
  assumes "send_step data w s = (SendBreak rb, w1)"
  shows "T1PRIME_PCB_IS_I (pcb rb)"
proof -
  obtain r w' where t: "t1prime_block_transceive w (transmission_block s) = (r, w')"
    by (cases "t1prime_block_transceive w (transmission_block s)")
  with assms obtain resp where "r = Inr resp" "dispatch_sent data w' s resp = (SendBreak rb, w1)"
    by (cases r) (simp_all add: send_step_def)
  with dispatch_break show ?thesis by blast
qed

lemma recv_first_empty:
  assumes "T1PRIME_PCB_IS_I (pcb rb)" and "information_size rb = 0"
  shows "recv_step w \<lparr>response_block = rb, response = None\<rparr>
         = (RecvReturn (IFX_ERROR PROTOCOL_TRANSCEIVE INVALID_BLOCK), w)"
  using assms by (simp add: recv_step_def Let_def)

lemma after_i_block_cases:
  assumes "after_i_block w rb acc = (x, w')"
  shows "receive_counter (protocol_state w') = receive_counter (protocol_state w) XOR 0x01
       \<and> send_counter (protocol_state w') = send_counter (protocol_state w)
       \<and> (x = RecvBreak acc
            \<or> (\<exists>rb'. x = RecvAgain \<lparr>response_block = rb', response = Some acc\<rparr>)
            \<or> (\<exists>e. x = RecvReturn e))"
proof (cases "T1PRIME_PCB_I_HAS_MORE (pcb rb)")
  case False
  with assms show ?thesis
    by (auto simp add: after_i_block_def Let_def toggle_receive_counter_def)
next
  case True
  let ?w1 = "toggle_receive_counter w"
  let ?b = "\<lparr>nad = 0x21, pcb = T1PRIME_PCB_R_ACK (receive_counter (protocol_state ?w1)),
             information_size = 0, information = []\<rparr>"
  obtain r w2 where t: "t1prime_block_transceive ?w1 ?b = (r, w2)"
    by (cases "t1prime_block_transceive ?w1 ?b")
  from wtx_counters [OF block_transceive_result(1) [OF t]]
  have c: "receive_counter (protocol_state w2) = receive_counter (protocol_state w) XOR 0x01"
    "send_counter (protocol_state w2) = send_counter (protocol_state w)"
    by (simp_all add: toggle_receive_counter_def)
  from assms True t have "w' = w2"
    and "x = (case r of Inl e \<Rightarrow> RecvReturn e
              | Inr rb' \<Rightarrow> RecvAgain \<lparr>response_block = rb', response = Some acc\<rparr>)"
    by (auto simp add: after_i_block_def Let_def split: sum.splits)
  with c show ?thesis by (cases r) auto
qed

text \<open>
  Claim C10.  When the send loop ends with a response I-block that has no information,
  the call fails with \<open>INVALID_BLOCK\<close>.  A response I-block with the expected N(S)
  and no information is turned down with \<open>INVALID_BLOCK\<close> while the response buffer is
  still unset, and is taken otherwise: the buffer stays as it is and the receive counter
  is toggled.  A buffer that is set is never empty, as long as the blocks hold the
  information their length field announces: it is set from a block with information and
  only grows.
\<close>

theorem zero_length_response_block:
  "(send_step data w s = (SendBreak rb, w1) \<and> information_size rb = 0 \<longrightarrow>
      send_loop data w s = (Inl (IFX_ERROR PROTOCOL_TRANSCEIVE INVALID_BLOCK), w1)) \<and>
   (T1PRIME_PCB_IS_I (pcb (response_block st)) \<and> information_size (response_block st) = 0 \<and>
    T1PRIME_PCB_I_GET_NS (pcb (response_block st)) = receive_counter (protocol_state w) \<longrightarrow>
      recv_step w st =
        (case response st of
           None \<Rightarrow> (RecvReturn (IFX_ERROR PROTOCOL_TRANSCEIVE INVALID_BLOCK), w)
         | Some acc \<Rightarrow> after_i_block w (response_block st) acc)) \<and>
   (after_i_block w rb acc = (x, w') \<longrightarrow>
      receive_counter (protocol_state w') = receive_counter (protocol_state w) XOR 0x01 \<and>
      send_counter (protocol_state w') = send_counter (protocol_state w) \<and>
      (x = RecvBreak acc
         \<or> (\<exists>rb'. x = RecvAgain \<lparr>response_block = rb', response = Some acc\<rparr>)
         \<or> (\<exists>e. x = RecvReturn e))) \<and>
   (recv_step w st = (y, w') \<and>
    information_size (response_block st) \<le> length (information (response_block st)) \<and>
    response st \<noteq> Some [] \<longrightarrow>
      y \<noteq> RecvBreak [] \<and> (\<forall>st'. y = RecvAgain st' \<longrightarrow> response st' \<noteq> Some []))"
proof -
  have p1: "send_step data w s = (SendBreak rb, w1) \<and> information_size rb = 0 \<longrightarrow>
      send_loop data w s = (Inl (IFX_ERROR PROTOCOL_TRANSCEIVE INVALID_BLOCK), w1)"
  proof
    assume a: "send_step data w s = (SendBreak rb, w1) \<and> information_size rb = 0"
    then have i: "T1PRIME_PCB_IS_I (pcb rb)" using send_break by blast
    from a have "send_loop data w s = recv_loop w1 \<lparr>response_block = rb, response = None\<rparr>"
      by (simp add: send_loop.simps [of data w s])
    also have "\<dots> = (Inl (IFX_ERROR PROTOCOL_TRANSCEIVE INVALID_BLOCK), w1)"
      using recv_first_empty [OF i, of w1] a
      by (simp add: recv_loop.simps [of w1 "\<lparr>response_block = rb, response = None\<rparr>"])
    finally show "send_loop data w s = (Inl (IFX_ERROR PROTOCOL_TRANSCEIVE INVALID_BLOCK), w1)" .
  qed
  have p2: "T1PRIME_PCB_IS_I (pcb (response_block st)) \<and> information_size (response_block st) = 0 \<and>
    T1PRIME_PCB_I_GET_NS (pcb (response_block st)) = receive_counter (protocol_state w) \<longrightarrow>
      recv_step w st =
        (case response st of
           None \<Rightarrow> (RecvReturn (IFX_ERROR PROTOCOL_TRANSCEIVE INVALID_BLOCK), w)
         | Some acc \<Rightarrow> after_i_block w (response_block st) acc)"
  proof
    assume "T1PRIME_PCB_IS_I (pcb (response_block st)) \<and> information_size (response_block st) = 0 \<and>
      T1PRIME_PCB_I_GET_NS (pcb (response_block st)) = receive_counter (protocol_state w)"
    then show "recv_step w st =
          (case response st of
             None \<Rightarrow> (RecvReturn (IFX_ERROR PROTOCOL_TRANSCEIVE INVALID_BLOCK), w)
           | Some acc \<Rightarrow> after_i_block w (response_block st) acc)"
      by (simp add: recv_step_def Let_def split: option.splits)
  qed
  have p3: "after_i_block w rb acc = (x, w') \<longrightarrow>
      receive_counter (protocol_state w') = receive_counter (protocol_state w) XOR 0x01 \<and>
      send_counter (protocol_state w') = send_counter (protocol_state w) \<and>
      (x = RecvBreak acc
         \<or> (\<exists>rb'. x = RecvAgain \<lparr>response_block = rb', response = Some acc\<rparr>)
         \<or> (\<exists>e. x = RecvReturn e))"
  proof
    assume "after_i_block w rb acc = (x, w')"
    from after_i_block_cases [OF this]
    show "receive_counter (protocol_state w') = receive_counter (protocol_state w) XOR 0x01 \<and>
        send_counter (protocol_state w') = send_counter (protocol_state w) \<and>
        (x = RecvBreak acc
           \<or> (\<exists>rb'. x = RecvAgain \<lparr>response_block = rb', response = Some acc\<rparr>)
           \<or> (\<exists>e. x = RecvReturn e))" .
  qed
  have p4: "recv_step w st = (y, w') \<and>
    information_size (response_block st) \<le> length (information (response_block st)) \<and>
    response st \<noteq> Some [] \<longrightarrow>
      y \<noteq> RecvBreak [] \<and> (\<forall>st'. y = RecvAgain st' \<longrightarrow> response st' \<noteq> Some [])"
  proof
    assume a: "recv_step w st = (y, w') \<and>
      information_size (response_block st) \<le> length (information (response_block st)) \<and>
      response st \<noteq> Some []"
    let ?rb = "response_block st"
    have ne: "take (information_size ?rb) (information ?rb) \<noteq> []" if "information_size ?rb \<noteq> 0"
      using that a by auto
    have ai: "y \<noteq> RecvBreak [] \<and> (\<forall>st'. y = RecvAgain st' \<longrightarrow> response st' \<noteq> Some [])"
      if "after_i_block w ?rb acc = (y, w')" and "acc \<noteq> []" for acc
      using after_i_block_cases [OF that(1)] that(2) by auto
    show "y \<noteq> RecvBreak [] \<and> (\<forall>st'. y = RecvAgain st' \<longrightarrow> response st' \<noteq> Some [])"
    proof (cases "T1PRIME_PCB_IS_I (pcb ?rb)")
      case True
      show ?thesis
      proof (cases "T1PRIME_PCB_I_GET_NS (pcb ?rb) \<noteq> receive_counter (protocol_state w)")
        case True
        with \<open>T1PRIME_PCB_IS_I (pcb ?rb)\<close> a show ?thesis
          by (auto simp add: recv_step_def Let_def)
      next
        case False
        show ?thesis
        proof (cases "response st")
          case None
          show ?thesis
          proof (cases "information_size ?rb = 0")
            case True
            with None False \<open>T1PRIME_PCB_IS_I (pcb ?rb)\<close> a show ?thesis
              by (auto simp add: recv_step_def Let_def)
          next
            case nz: False
            with None False \<open>T1PRIME_PCB_IS_I (pcb ?rb)\<close> a
            have "after_i_block w ?rb (take (information_size ?rb) (information ?rb)) = (y, w')"
              by (simp add: recv_step_def Let_def)
            from ai [OF this ne [OF nz]] show ?thesis .
          qed
        next
          case (Some r)
          with a have r: "r \<noteq> []" by auto
          show ?thesis
          proof (cases "information_size ?rb > 0")
            case True
            with Some False \<open>T1PRIME_PCB_IS_I (pcb ?rb)\<close> a
            have "after_i_block w ?rb (r @ take (information_size ?rb) (information ?rb)) = (y, w')"
              by (simp add: recv_step_def Let_def)
            from ai [OF this] r show ?thesis by simp
          next
            case z: False
            with Some False \<open>T1PRIME_PCB_IS_I (pcb ?rb)\<close> a
            have "after_i_block w ?rb r = (y, w')"
              by (simp add: recv_step_def Let_def)
            from ai [OF this r] show ?thesis .
          qed
        qed
      qed
    next
      case False
      with a show ?thesis
        by (auto simp add: recv_step_def Let_def split: if_splits prod.splits sum.splits)
    qed
  qed
  from p1 p2 p3 p4 show ?thesis by blast
qed

theorem zero_length_response_block_witness:
  "fst (t1prime_transceive (mock_world (BlockWrapper_frames 0x00 [])) [0x01, 0x02])
     = Inl (IFX_ERROR PROTOCOL_TRANSCEIVE INVALID_BLOCK) \<and>
   recv_step (mock_world [])
       \<lparr>response_block = \<lparr>nad = 0x12, pcb = 0x00, information_size = 0, information = []\<rparr>,
        response = None\<rparr>
     = (RecvReturn (IFX_ERROR PROTOCOL_TRANSCEIVE INVALID_BLOCK), mock_world []) \<and>
   recv_step (mock_world [])
       \<lparr>response_block = \<lparr>nad = 0x12, pcb = 0x00, information_size = 0, information = []\<rparr>,
        response = Some [0xF1, 0xF2]\<rparr>
     = (RecvBreak [0xF1, 0xF2], toggle_receive_counter (mock_world [])) \<and>
   receive_counter (protocol_state (toggle_receive_counter (mock_world []))) = 0x01 \<and>
   fst (t1prime_transceive
          (mock_world (BlockWrapper_frames 0x20 [0xF1, 0xF2] @ BlockWrapper_frames 0x40 []))
          [0x01, 0x02])
     = Inr [0xF1, 0xF2]"
proof -
  let ?w0 = "mock_world (BlockWrapper_frames 0x00 [])"
  let ?s0 = "\<lparr>transmission_block =
                \<lparr>nad = 0x21, pcb = 0x00, information_size = 2, information = [0x01, 0x02 :: byte]\<rparr>,
              last_information_size = 2, offset = 0, remaining = 2, aborted = False\<rparr>"
  let ?rb = "\<lparr>nad = 0x12, pcb = 0x00, information_size = 0, information = [] :: byte list\<rparr>"
  let ?e = "mock_world []"
  define W1 where "W1 = snd (send_step [0x01, 0x02] ?w0 ?s0)"
  have f: "fst (send_step [0x01, 0x02] ?w0 ?s0) = SendBreak ?rb"
    by (simp add: session_eval world_eval codec_eval pcb_eval cong: let_weak_cong)
  then have h1: "send_step [0x01, 0x02] ?w0 ?s0 = (SendBreak ?rb, W1)"
    by (simp add: W1_def prod_eq_iff)
  have tr: "t1prime_transceive ?w0 [0x01, 0x02] = send_loop [0x01, 0x02] ?w0 ?s0"
    by (simp add: t1prime_transceive_def mock_world_def initial_protocol_state_def
        T1PRIME_MAX_IFS_def pcb_eval Let_def Suc_Suc_0)
  note zl = zero_length_response_block
  from zl [where data = "[0x01, 0x02]" and w = ?w0 and s = ?s0 and rb = ?rb and ?w1.0 = W1] h1
  have "send_loop [0x01, 0x02] ?w0 ?s0 = (Inl (IFX_ERROR PROTOCOL_TRANSCEIVE INVALID_BLOCK), W1)"
    by simp
  with tr have c1: "fst (t1prime_transceive ?w0 [0x01, 0x02])
     = Inl (IFX_ERROR PROTOCOL_TRANSCEIVE INVALID_BLOCK)" by simp
  have hyp: "T1PRIME_PCB_IS_I (pcb ?rb)" "information_size ?rb = 0"
    "T1PRIME_PCB_I_GET_NS (pcb ?rb) = receive_counter (protocol_state ?e)"
    by (simp_all add: pcb_eval mock_world_def initial_protocol_state_def)
  from zl [where st = "\<lparr>response_block = ?rb, response = None\<rparr>" and w = ?e] hyp
  have c2: "recv_step ?e \<lparr>response_block = ?rb, response = None\<rparr>
     = (RecvReturn (IFX_ERROR PROTOCOL_TRANSCEIVE INVALID_BLOCK), ?e)" by simp
  have ai: "after_i_block ?e ?rb [0xF1, 0xF2] = (RecvBreak [0xF1, 0xF2], toggle_receive_counter ?e)"
    by (simp add: after_i_block_def pcb_eval Let_def)
  from zl [where st = "\<lparr>response_block = ?rb, response = Some [0xF1, 0xF2]\<rparr>" and w = ?e] hyp ai
  have c3: "recv_step ?e \<lparr>response_block = ?rb, response = Some [0xF1, 0xF2]\<rparr>
     = (RecvBreak [0xF1, 0xF2], toggle_receive_counter ?e)" by simp
  from zl [where w = ?e and rb = ?rb and acc = "[0xF1, 0xF2]" and x = "RecvBreak [0xF1, 0xF2]"
      and w' = "toggle_receive_counter ?e"] ai
  have c4: "receive_counter (protocol_state (toggle_receive_counter ?e)) = 0x01"
    by (simp add: mock_world_def initial_protocol_state_def)
  have c5: "fst (t1prime_transceive
          (mock_world (BlockWrapper_frames 0x20 [0xF1, 0xF2] @ BlockWrapper_frames 0x40 []))
          [0x01, 0x02])
     = Inr [0xF1, 0xF2]"
    by (simp add: session_eval world_eval codec_eval pcb_eval cong: let_weak_cong)
  from c1 c2 c3 c4 c5 show ?thesis by blast
qed

section \<open>Abort of the outgoing chain\<close>

lemma r_not_i: "T1PRIME_PCB_IS_R p \<Longrightarrow> \<not> T1PRIME_PCB_IS_I p"
  unfolding T1PRIME_PCB_IS_R_def T1PRIME_PCB_IS_I_def
  by (simp add: byte_eq_iff bit_simps)

lemma dispatch_abort_request:
  assumes "pcb rb = T1PRIME_PCB_S_ABORT_REQ"
  shows "dispatch_sent data w s rb =
           (SendAgain (s\<lparr>transmission_block :=
                          (transmission_block s)\<lparr>pcb := T1PRIME_PCB_S_ABORT_RESP,
                                                 information := [], information_size := 0\<rparr>,
                        aborted := True\<rparr>), w)"
  using assms by (simp add: dispatch_sent_def Let_def pcb_eval)

lemma dispatch_aborted:
  assumes "T1PRIME_PCB_IS_R (pcb rb)"
    and "T1PRIME_PCB_R_GET_NR (pcb rb) = send_counter (protocol_state w) XOR 0x01"
    and "aborted s"
  shows "dispatch_sent data w s rb
         = (SendReturn (IFX_ERROR PROTOCOL_TRANSCEIVE TRANSCEIVE_ABORTED), w)"
  using assms r_not_i [OF assms(1)] by (simp add: dispatch_sent_def Let_def)

text \<open>
  Claim C8.  The claim reads: when the card answers a block of the outgoing chain with
  S(ABORT request), the call replies with S(ABORT response) and returns
  \<open>TRANSCEIVE_ABORTED\<close>.  What the call returns depends on the answer to the
  S(ABORT response).  A card that then sends R(0), which asks for the block again, gets
  the I-block once more, and the call succeeds with the response that follows; a card
  that sends nothing more makes the call fail with \<open>TOO_LITTLE_DATA\<close>.
\<close>

theorem abort_not_surfaced_counterexample:
  "transmitted (trace (snd (t1prime_transceive
       (mock_world (BlockWrapper_frames 0xC2 [] @ BlockWrapper_frames 0x80 []
                      @ BlockWrapper_frames 0x00 [0xF1, 0xF2]))
       [0x01, 0x02])))
     = [BlockWrapper_block 0x00 [0x01, 0x02], BlockWrapper_block 0xE2 [],
        BlockWrapper_block 0x00 [0x01, 0x02]] \<and>
   fst (t1prime_transceive
       (mock_world (BlockWrapper_frames 0xC2 [] @ BlockWrapper_frames 0x80 []
                      @ BlockWrapper_frames 0x00 [0xF1, 0xF2]))
       [0x01, 0x02])
     = Inr [0xF1, 0xF2] \<and>
   fst (t1prime_transceive (mock_world (BlockWrapper_frames 0xC2 [])) [0x01, 0x02])
     = Inl (IFX_ERROR PROTOCOL_RECEIVE TOO_LITTLE_DATA)"
  by (simp add: session_eval world_eval codec_eval pcb_eval cong: let_weak_cong)

text \<open>
  Claim C8, amended.  When the card answers a block of the outgoing chain with
  S(ABORT request), the call sends S(ABORT response); when the card answers that with an
  R-block whose N(R) is the complement of the send counter, the call returns
  \<open>TRANSCEIVE_ABORTED\<close>, and the send and receive counters are what they were when the
  aborted block was sent.  When the aborted block is the first of the call, the call
  fails with \<open>TRANSCEIVE_ABORTED\<close> and leaves both counters as they were before it.
\<close>

theorem abort_in_send_chain:
  assumes "t1prime_block_transceive w (transmission_block s) = (Inr rb, w1)"
    and "pcb rb = T1PRIME_PCB_S_ABORT_REQ"
    and "t1prime_block_transceive w1
           ((transmission_block s)\<lparr>pcb := T1PRIME_PCB_S_ABORT_RESP, information := [],
                                   information_size := 0\<rparr>) = (Inr rb2, w2)"
    and "T1PRIME_PCB_IS_R (pcb rb2)"
    and "T1PRIME_PCB_R_GET_NR (pcb rb2) = send_counter (protocol_state w) XOR 0x01"
  shows "send_loop data w s = (Inl (IFX_ERROR PROTOCOL_TRANSCEIVE TRANSCEIVE_ABORTED), w2) \<and>
         send_counter (protocol_state w2) = send_counter (protocol_state w) \<and>
         receive_counter (protocol_state w2) = receive_counter (protocol_state w) \<and>
         t1prime_block_encode
             ((transmission_block s)\<lparr>pcb := T1PRIME_PCB_S_ABORT_RESP, information := [],
                                     information_size := 0\<rparr>)
           \<in> set (transmitted (new_events w w2)) \<and>
         (data \<noteq> [] \<and>
          s = (let st = protocol_state w;
                   size = (if length data < ifsc st then length data else ifsc st)
               in \<lparr>transmission_block =
                     \<lparr>nad = 0x21,
                      pcb = T1PRIME_PCB_I (send_counter st) (length data - size > 0),
                      information_size = size, information = take size data\<rparr>,
                   last_information_size = size, offset = 0, remaining = length data,
                   aborted = False\<rparr>) \<longrightarrow>
          t1prime_transceive w data
            = (Inl (IFX_ERROR PROTOCOL_TRANSCEIVE TRANSCEIVE_ABORTED), w2))"
proof -
  let ?ab = "(transmission_block s)\<lparr>pcb := T1PRIME_PCB_S_ABORT_RESP, information := [],
                                    information_size := 0\<rparr>"
  let ?s' = "s\<lparr>transmission_block := ?ab, aborted := True\<rparr>"
  note k1 = wtx_counters [OF block_transceive_result(1) [OF assms(1)]]
  note k2 = wtx_counters [OF block_transceive_result(1) [OF assms(3)]]
  have step1: "send_step data w s = (SendAgain ?s', w1)"
    using assms(1) dispatch_abort_request [OF assms(2)] by (simp add: send_step_def)
  have nr: "T1PRIME_PCB_R_GET_NR (pcb rb2) = send_counter (protocol_state w2) XOR 0x01"
    using assms(5) k1 k2 by simp
  have step2: "send_step data w1 ?s'
               = (SendReturn (IFX_ERROR PROTOCOL_TRANSCEIVE TRANSCEIVE_ABORTED), w2)"
    using assms(3) dispatch_aborted [OF assms(4) nr, of ?s' data] by (simp add: send_step_def)
  have "send_loop data w s = send_loop data w1 ?s'"
    using step1 by (simp add: send_loop.simps [of data w s])
  also have "\<dots> = (Inl (IFX_ERROR PROTOCOL_TRANSCEIVE TRANSCEIVE_ABORTED), w2)"
    using step2 by (simp add: send_loop.simps [of data w1 ?s'])
  finally have run: "send_loop data w s
                     = (Inl (IFX_ERROR PROTOCOL_TRANSCEIVE TRANSCEIVE_ABORTED), w2)" .
  have cs: "send_counter (protocol_state w2) = send_counter (protocol_state w)"
    and cr: "receive_counter (protocol_state w2) = receive_counter (protocol_state w)"
    using k1 k2 by simp_all
  from block_transceive_result(2) [OF assms(1)]
  obtain evs1 where e1: "trace w1 = trace w @ evs1" by blast
  from block_transceive_result(5) [OF assms(3) refl]
  obtain evs2 where e2: "trace w2 = trace w1 @ Transmit (t1prime_block_encode ?ab) (Inr ()) # evs2
                                      @ [Receive (Inr rb2)]" by blast
  have "new_events w w2 = evs1 @ Transmit (t1prime_block_encode ?ab) (Inr ()) # evs2
                                      @ [Receive (Inr rb2)]"
    using e1 e2 by (simp add: new_events_def)
  then have tx: "t1prime_block_encode ?ab \<in> set (transmitted (new_events w w2))"
    by simp
  have call: "t1prime_transceive w data
            = (Inl (IFX_ERROR PROTOCOL_TRANSCEIVE TRANSCEIVE_ABORTED), w2)"
    if "data \<noteq> []"
      and "s = (let st = protocol_state w;
                   size = (if length data < ifsc st then length data else ifsc st)
               in \<lparr>transmission_block =
                     \<lparr>nad = 0x21,
                      pcb = T1PRIME_PCB_I (send_counter st) (length data - size > 0),
                      information_size = size, information = take size data\<rparr>,
                   last_information_size = size, offset = 0, remaining = length data,
                   aborted = False\<rparr>)"
  proof -
    from that have "t1prime_transceive w data = send_loop data w s"
      by (simp add: t1prime_transceive_def Let_def del: send_loop.simps)
    with run show ?thesis by simp
  qed
  from run cs cr tx call show ?thesis by blast
qed

theorem abort_in_send_chain_witness:
  "fst (t1prime_transceive
          (set_ifsc (mock_world (BlockWrapper_frames 0xC2 [] @ BlockWrapper_frames 0x90 [])) 2)
          [0x01, 0x02, 0x03, 0x04])
     = Inl (IFX_ERROR PROTOCOL_TRANSCEIVE TRANSCEIVE_ABORTED) \<and>
   transmitted (trace (snd (t1prime_transceive
          (set_ifsc (mock_world (BlockWrapper_frames 0xC2 [] @ BlockWrapper_frames 0x90 [])) 2)
          [0x01, 0x02, 0x03, 0x04])))
     = [BlockWrapper_block 0x20 [0x01, 0x02], BlockWrapper_block 0xE2 []] \<and>
   send_counter (protocol_state (snd (t1prime_transceive
          (set_ifsc (mock_world (BlockWrapper_frames 0xC2 [] @ BlockWrapper_frames 0x90 [])) 2)
          [0x01, 0x02, 0x03, 0x04]))) = 0 \<and>
   receive_counter (protocol_state (snd (t1prime_transceive
          (set_ifsc (mock_world (BlockWrapper_frames 0xC2 [] @ BlockWrapper_frames 0x90 [])) 2)
          [0x01, 0x02, 0x03, 0x04]))) = 0"
proof -
  let ?w = "set_ifsc (mock_world (BlockWrapper_frames 0xC2 [] @ BlockWrapper_frames 0x90 [])) 2"
  let ?data = "[0x01, 0x02, 0x03, 0x04] :: byte list"
  let ?tb = "\<lparr>nad = 0x21, pcb = 0x20, information_size = 2, information = [0x01, 0x02 :: byte]\<rparr>"
  let ?s = "\<lparr>transmission_block = ?tb, last_information_size = 2, offset = 0, remaining = 4,
             aborted = False\<rparr>"
  let ?ab = "?tb\<lparr>pcb := T1PRIME_PCB_S_ABORT_RESP, information := [], information_size := 0\<rparr>"
  let ?rb = "\<lparr>nad = 0x12, pcb = 0xC2, information_size = 0, information = [] :: byte list\<rparr>"
  let ?rb2 = "\<lparr>nad = 0x12, pcb = 0x90, information_size = 0, information = [] :: byte list\<rparr>"
  define W1 where "W1 = snd (t1prime_block_transceive ?w ?tb)"
  define W2 where "W2 = snd (t1prime_block_transceive W1 ?ab)"
  have w1: "W1 = \<lparr>protocol_state = \<lparr>bwt = 300, mpot = 10, ifsc = 2, send_counter = 0,
                      receive_counter = 0, wtx_delay = 0\<rparr>,
                  incoming = BlockWrapper_frames 0x90 [], transmit_results = [],
                  polls = [1, 1, 1, 1, 1], i2c_fault = None, clock_frequency = 0,
                  trace = [Transmit (BlockWrapper_block 0x20 [0x01, 0x02]) (Inr ()),
                           Receive (Inr ?rb)]\<rparr>"
    unfolding W1_def
    by (simp add: session_eval world_eval codec_eval pcb_eval cong: let_weak_cong)
  have f1: "fst (t1prime_block_transceive ?w ?tb) = Inr ?rb"
    by (simp add: session_eval world_eval codec_eval pcb_eval cong: let_weak_cong)
  have w2: "trace W2 = [Transmit (BlockWrapper_block 0x20 [0x01, 0x02]) (Inr ()),
                        Receive (Inr ?rb),
                        Transmit (BlockWrapper_block 0xE2 []) (Inr ()),
                        Receive (Inr ?rb2)]"
    and c2: "send_counter (protocol_state W2) = 0" "receive_counter (protocol_state W2) = 0"
    unfolding W2_def w1
    by (simp_all add: session_eval world_eval codec_eval pcb_eval cong: let_weak_cong)
  have f2: "fst (t1prime_block_transceive W1 ?ab) = Inr ?rb2"
    unfolding w1
    by (simp add: session_eval world_eval codec_eval pcb_eval cong: let_weak_cong)
  have r1: "t1prime_block_transceive ?w (transmission_block ?s) = (Inr ?rb, W1)"
    using f1 by (simp add: W1_def prod_eq_iff)
  have r2: "t1prime_block_transceive W1
              ((transmission_block ?s)\<lparr>pcb := T1PRIME_PCB_S_ABORT_RESP, information := [],
                                       information_size := 0\<rparr>) = (Inr ?rb2, W2)"
    using f2 by (simp add: W2_def prod_eq_iff)
  have h2: "pcb ?rb = T1PRIME_PCB_S_ABORT_REQ" by (simp add: pcb_eval)
  have h4: "T1PRIME_PCB_IS_R (pcb ?rb2)" by (simp add: pcb_eval)
  have h5: "T1PRIME_PCB_R_GET_NR (pcb ?rb2) = send_counter (protocol_state ?w) XOR 0x01"
    by (simp add: pcb_eval set_ifsc_def mock_world_def initial_protocol_state_def)
  have s0: "?s = (let st = protocol_state ?w;
                   size = (if length ?data < ifsc st then length ?data else ifsc st)
               in \<lparr>transmission_block =
                     \<lparr>nad = 0x21,
                      pcb = T1PRIME_PCB_I (send_counter st) (length ?data - size > 0),
                      information_size = size, information = take size ?data\<rparr>,
                   last_information_size = size, offset = 0, remaining = length ?data,
                   aborted = False\<rparr>)"
    by (simp add: pcb_eval set_ifsc_def mock_world_def initial_protocol_state_def Let_def)
  from abort_in_send_chain [OF r1 h2 r2 h4 h5, of ?data] s0
  have "t1prime_transceive ?w ?data
            = (Inl (IFX_ERROR PROTOCOL_TRANSCEIVE TRANSCEIVE_ABORTED), W2)"
    by blast
  with w2 c2 show ?thesis by simp
qed

section \<open>Runs on which the engine departs from its description\<close>

lemmas cip_eval =
  t1prime_cip_decode_def t1prime_cip_validate_def t1prime_dllp_decode_def
  t1prime_i2c_plp_decode_def PLID_SPI_def PLID_I2C_def

text \<open>
  Claim C1.  \<open>t1prime_activate\<close> stores the IFSC of the DLLP as it is.  The card answers
  S(CIP request) with a CIP for I2C whose DLLP is \<open>00 80 FF FF\<close> and acknowledges the
  resynchronisation: the activation succeeds and leaves IFSC = 0xFFFF, above
  \<open>T1PRIME_MAX_IFS\<close>.
\<close>

theorem activate_ifsc_unchecked:
  "fst (t1prime_activate
          (mock_world (BlockWrapper_frames 0xE4
               [0x01, 0x03, 0x00, 0x00, 0x00, 0x02,
                0x08, 0x00, 0x00, 0x01, 0x90, 0x00, 0x0A, 0x00, 0x00,
                0x04, 0x00, 0x80, 0xFF, 0xFF, 0x00]
             @ BlockWrapper_frames 0xE0 []))) = Inr () \<and>
   ifsc (protocol_state (snd (t1prime_activate
          (mock_world (BlockWrapper_frames 0xE4
               [0x01, 0x03, 0x00, 0x00, 0x00, 0x02,
                0x08, 0x00, 0x00, 0x01, 0x90, 0x00, 0x0A, 0x00, 0x00,
                0x04, 0x00, 0x80, 0xFF, 0xFF, 0x00]
             @ BlockWrapper_frames 0xE0 []))))) = 0xFFFF \<and>
   T1PRIME_MAX_IFS = 0xFF9"
  by (simp add: session_eval world_eval codec_eval pcb_eval cip_eval cong: let_weak_cong)

text \<open>
  Claim C5.  The S(IFS request) branch of the send loop only shortens the chunk that is
  sent again; it never writes the IFSC of the session.  Request of 6 bytes with IFSC = 6;
  the card answers S(IFS request) with 02, then R(0), R(1) and the response.  The engine
  sends S(IFS response) with 02 and the first 2 bytes again, then the remaining 4 bytes
  in one I-block, and the IFSC of the session is still 6.
\<close>

theorem ifs_request_not_adopted:
  "transmitted (trace (snd (t1prime_transceive
       (set_ifsc (mock_world (BlockWrapper_frames 0xC1 [0x02] @ BlockWrapper_frames 0x80 []
                    @ BlockWrapper_frames 0x90 [] @ BlockWrapper_frames 0x00 [0xF5, 0xF6])) 6)
       [0x01, 0x02, 0x03, 0x04, 0x05, 0x06])))
     = [BlockWrapper_block 0x00 [0x01, 0x02, 0x03, 0x04, 0x05, 0x06],
        BlockWrapper_block 0xE1 [0x02],
        BlockWrapper_block 0x20 [0x01, 0x02],
        BlockWrapper_block 0x40 [0x03, 0x04, 0x05, 0x06]] \<and>
   fst (t1prime_transceive
       (set_ifsc (mock_world (BlockWrapper_frames 0xC1 [0x02] @ BlockWrapper_frames 0x80 []
                    @ BlockWrapper_frames 0x90 [] @ BlockWrapper_frames 0x00 [0xF5, 0xF6])) 6)
       [0x01, 0x02, 0x03, 0x04, 0x05, 0x06])
     = Inr [0xF5, 0xF6] \<and>
   ifsc (protocol_state (snd (t1prime_transceive
       (set_ifsc (mock_world (BlockWrapper_frames 0xC1 [0x02] @ BlockWrapper_frames 0x80 []
                    @ BlockWrapper_frames 0x90 [] @ BlockWrapper_frames 0x00 [0xF5, 0xF6])) 6)
       [0x01, 0x02, 0x03, 0x04, 0x05, 0x06]))) = 6"
  by (simp add: session_eval world_eval codec_eval pcb_eval cong: let_weak_cong)

text \<open>
  Claim C6.  In the receive loop an R-block whose N(R) differs from the send counter
  empties the response buffer, and the loop goes on: the \<open>return\<close> after the clean-up
  is missing.  The card answers the request with I(0,1), then, to the acknowledgement,
  with R(0) while the send counter is 1, then with I(1,0).  The call sends the
  acknowledgement again and succeeds with the information of the last block alone.
\<close>

theorem receive_r_block_not_rejected:
  "receptions (trace (snd (t1prime_transceive
       (mock_world (BlockWrapper_frames 0x20 [0xF1, 0xF2] @ BlockWrapper_frames 0x80 []
                      @ BlockWrapper_frames 0x40 [0xF3, 0xF4]))
       [0x01, 0x02])))
     = [Inr \<lparr>nad = 0x12, pcb = 0x20, information_size = 2, information = [0xF1, 0xF2]\<rparr>,
        Inr \<lparr>nad = 0x12, pcb = 0x80, information_size = 0, information = []\<rparr>,
        Inr \<lparr>nad = 0x12, pcb = 0x40, information_size = 2, information = [0xF3, 0xF4]\<rparr>] \<and>
   transmitted (trace (snd (t1prime_transceive
       (mock_world (BlockWrapper_frames 0x20 [0xF1, 0xF2] @ BlockWrapper_frames 0x80 []
                      @ BlockWrapper_frames 0x40 [0xF3, 0xF4]))
       [0x01, 0x02])))
     = [BlockWrapper_block 0x00 [0x01, 0x02], BlockWrapper_block 0x90 [],
        BlockWrapper_block 0x90 []] \<and>
   fst (t1prime_transceive
       (mock_world (BlockWrapper_frames 0x20 [0xF1, 0xF2] @ BlockWrapper_frames 0x80 []
                      @ BlockWrapper_frames 0x40 [0xF3, 0xF4]))
       [0x01, 0x02])
     = Inr [0xF3, 0xF4]"
  by (simp add: session_eval world_eval codec_eval pcb_eval cong: let_weak_cong)

end
